theory Spec2Isabelle
  imports Complex_Main
begin

section \<open>Data model of the drawing application\<close>

text \<open>
  The element record of the \<^verbatim>\<open>DrawingApp\<close> component.  JavaScript numbers are read as real
  numbers; an optional field (\<^verbatim>\<open>width?: number\<close>) is an \<open>option\<close>, with \<open>None\<close> for
  an absent or undefined field.  Record fields are global constants, so the fields of an
  element carry the prefix \<open>e_\<close> and those of a point the prefix \<open>p_\<close>.
\<close>

datatype ElementType = Selection | Rectangle | Circle | Line | Arrow | Text | Freehand

record Point =
  p_x :: real
  p_y :: real

record Element =
  e_id :: string
  e_type :: ElementType
  e_x :: real
  e_y :: real
  e_width :: "real option"
  e_height :: "real option"
  e_radius :: "real option"
  e_points :: "Point list option"
  e_text :: "string option"
  e_fill :: string
  e_stroke :: string
  e_strokeWidth :: real
  e_isDragging :: bool
  e_selected :: "bool option"
  e_rotation :: "real option"

datatype HandlePosition =
  TopLeft | Top | TopRight | Left | Right | BottomLeft | Bottom | BottomRight
  | Start | End | Rotation

record History =
  past :: "Element list list"
  present :: "Element list"
  future :: "Element list list"

section \<open>History manager\<close>

definition MAX_HISTORY_LENGTH :: nat where
  "MAX_HISTORY_LENGTH = 50"

text \<open>\<^verbatim>\<open>xs.slice(-n)\<close>: the last \<open>n\<close> entries, all of them when there are fewer.\<close>

definition sliceLast :: "nat \<Rightarrow> 'a list \<Rightarrow> 'a list" where
  "sliceLast n xs = drop (length xs - n) xs"

definition updateHistory :: "Element list \<Rightarrow> History \<Rightarrow> History" where
  "updateHistory newElements prev =
     \<lparr> past = sliceLast MAX_HISTORY_LENGTH (past prev @ [present prev]),
       present = newElements,
       future = [] \<rparr>"

definition handleUndo :: "History \<Rightarrow> History" where
  "handleUndo prev =
     (if length (past prev) = 0 then prev
      else
        let newPresent = past prev ! (length (past prev) - 1);
            newPast = take (length (past prev) - 1) (past prev)
        in \<lparr> past = newPast,
             present = newPresent,
             future = take MAX_HISTORY_LENGTH (present prev # future prev) \<rparr>)"

definition handleRedo :: "History \<Rightarrow> History" where
  "handleRedo prev =
     (if length (future prev) = 0 then prev
      else
        let newPresent = future prev ! 0;
            newFuture = drop 1 (future prev)
        in \<lparr> past = sliceLast MAX_HISTORY_LENGTH (past prev @ [present prev]),
             present = newPresent,
             future = newFuture \<rparr>)"

section \<open>JavaScript idioms\<close>

text \<open>\<^verbatim>\<open>v || 0\<close> on an optional number: an absent field and \<open>0\<close> both give \<open>0\<close>.\<close>

definition orZero :: "real option \<Rightarrow> real" where
  "orZero v = (case v of None \<Rightarrow> 0 | Some r \<Rightarrow> r)"

text \<open>\<^verbatim>\<open>v || 1\<close> on an optional number: an absent field and \<open>0\<close> both give \<open>1\<close>.\<close>

definition orOne :: "real option \<Rightarrow> real" where
  "orOne v = (case v of None \<Rightarrow> 1 | Some r \<Rightarrow> if r = 0 then 1 else r)"

text \<open>\<^verbatim>\<open>element.text || ""\<close>.\<close>

definition orEmpty :: "string option \<Rightarrow> string" where
  "orEmpty t = (case t of None \<Rightarrow> [] | Some str \<Rightarrow> str)"

text \<open>An optional boolean in a condition: undefined counts as false.\<close>

definition truthy :: "bool option \<Rightarrow> bool" where
  "truthy b = (case b of None \<Rightarrow> False | Some v \<Rightarrow> v)"

text \<open>
  The result of a JavaScript division.  Real division in HOL gives \<open>0\<close> for a zero
  divisor; JavaScript gives \<^verbatim>\<open>NaN\<close> for \<^verbatim>\<open>0 / 0\<close> and an infinity otherwise, and every
  comparison with \<^verbatim>\<open>NaN\<close> is false.
\<close>

datatype jsnum = Finite real | PosInfinity | NegInfinity | NaN

definition js_div :: "real \<Rightarrow> real \<Rightarrow> jsnum" where
  "js_div a b =
     (if b \<noteq> 0 then Finite (a / b)
      else if a = 0 then NaN
      else if 0 < a then PosInfinity
      else NegInfinity)"

definition js_lt :: "jsnum \<Rightarrow> real \<Rightarrow> bool" where
  "js_lt d c =
     (case d of Finite r \<Rightarrow> r < c | PosInfinity \<Rightarrow> False | NegInfinity \<Rightarrow> True | NaN \<Rightarrow> False)"

text \<open>\<^verbatim>\<open>Math.round\<close>: the nearest integer, a half rounded up.\<close>

definition js_round :: "real \<Rightarrow> real" where
  "js_round v = of_int \<lfloor>v + 1 / 2\<rfloor>"

text \<open>\<^verbatim>\<open>Math.atan2(y, x)\<close> on real arguments.\<close>

definition atan2 :: "real \<Rightarrow> real \<Rightarrow> real" where
  "atan2 y x =
     (if 0 < x then arctan (y / x)
      else if x < 0 \<and> 0 \<le> y then arctan (y / x) + pi
      else if x < 0 then arctan (y / x) - pi
      else if 0 < y then pi / 2
      else if y < 0 then - (pi / 2)
      else 0)"

text \<open>\<^verbatim>\<open>xs.map((el, index) => f(el, index))\<close>.\<close>

definition mapIndexed :: "(nat \<Rightarrow> 'a \<Rightarrow> 'b) \<Rightarrow> 'a list \<Rightarrow> 'b list" where
  "mapIndexed f xs = map (\<lambda>(i, v). f i v) (enumerate 0 xs)"

section \<open>Geometry kernel\<close>

definition isPointInElement :: "real \<Rightarrow> real \<Rightarrow> Element \<Rightarrow> bool" where
  "isPointInElement x y element =
     (if e_type element = Rectangle then
        x \<ge> e_x element \<and>
        x \<le> e_x element + orZero (e_width element) \<and>
        y \<ge> e_y element \<and>
        y \<le> e_y element + orZero (e_height element)
      else if e_type element = Circle then
        (let dx = x - e_x element;
             dy = y - e_y element;
             distance = sqrt (dx * dx + dy * dy)
         in distance \<le> orZero (e_radius element))
      else if e_type element = Line \<or> e_type element = Arrow then
        (case e_points element of
           None \<Rightarrow> False
         | Some pts \<Rightarrow>
             if length pts < 2 then False
             else
               let start = pts ! 0;
                   end = pts ! 1;
                   lineLength = sqrt ((p_x end - p_x start) ^ 2 + (p_y end - p_y start) ^ 2);
                   distance =
                     js_div
                       \<bar>(p_y end - p_y start) * x - (p_x end - p_x start) * y
                          + p_x end * p_y start - p_y end * p_x start\<bar>
                       lineLength
               in js_lt distance 10)
      else if e_type element = Text then
        (let textWidth = real (length (orEmpty (e_text element))) * 8;
             textHeight = 16
         in x \<ge> e_x element \<and> x \<le> e_x element + textWidth \<and>
            y \<ge> e_y element - textHeight \<and> y \<le> e_y element)
      else False)"

text \<open>
  The test that \<^verbatim>\<open>getHandleAtPosition\<close> repeats for every handle: the point lies in
  the square of side \<^verbatim>\<open>handleSize\<close> centred on the handle's position \<open>(hx, hy)\<close>.
\<close>

definition handleSize :: real where
  "handleSize = 8"

definition onHandle :: "real \<Rightarrow> real \<Rightarrow> real \<Rightarrow> real \<Rightarrow> bool" where
  "onHandle x y hx hy =
     (x \<ge> hx - handleSize / 2 \<and> x \<le> hx + handleSize / 2 \<and>
      y \<ge> hy - handleSize / 2 \<and> y \<le> hy + handleSize / 2)"

definition getHandleAtPosition :: "real \<Rightarrow> real \<Rightarrow> Element \<Rightarrow> HandlePosition option" where
  "getHandleAtPosition x y element =
     (if e_type element = Rectangle then
        (let ex = e_x element;
             ey = e_y element;
             width = orZero (e_width element);
             height = orZero (e_height element)
         in if onHandle x y ex ey then Some TopLeft
            else if onHandle x y (ex + width / 2) ey then Some Top
            else if onHandle x y (ex + width) ey then Some TopRight
            else if onHandle x y ex (ey + height / 2) then Some Left
            else if onHandle x y (ex + width) (ey + height / 2) then Some Right
            else if onHandle x y ex (ey + height) then Some BottomLeft
            else if onHandle x y (ex + width / 2) (ey + height) then Some Bottom
            else if onHandle x y (ex + width) (ey + height) then Some BottomRight
            else if onHandle x y (ex + width / 2) (ey - 30) then Some Rotation
            else None)
      else if e_type element = Circle then
        (let ex = e_x element;
             ey = e_y element;
             radius = orZero (e_radius element)
         in if onHandle x y ex (ey - radius) then Some Top
            else if onHandle x y (ex + radius) ey then Some Right
            else if onHandle x y ex (ey + radius) then Some Bottom
            else if onHandle x y (ex - radius) ey then Some Left
            else if onHandle x y ex (ey - radius - 30) then Some Rotation
            else None)
      else if e_type element = Line \<or> e_type element = Arrow then
        (case e_points element of
           None \<Rightarrow> None
         | Some pts \<Rightarrow>
             if length pts < 2 then None
             else
               let start = pts ! 0;
                   end = pts ! 1
               in if onHandle x y (p_x start) (p_y start) then Some Start
                  else if onHandle x y (p_x end) (p_y end) then Some End
                  else None)
      else if e_type element = Text then
        (let ex = e_x element;
             ey = e_y element;
             textWidth = real (length (orEmpty (e_text element))) * 8;
             textHeight = 16
         in if onHandle x y ex (ey - textHeight) then Some TopLeft
            else if onHandle x y (ex + textWidth) (ey - textHeight) then Some TopRight
            else if onHandle x y ex ey then Some BottomLeft
            else if onHandle x y (ex + textWidth) ey then Some BottomRight
            else if onHandle x y (ex + textWidth / 2) (ey - textHeight - 30) then Some Rotation
            else None)
      else None)"

record SelectionBox =
  sb_startX :: real
  sb_startY :: real
  sb_width :: real
  sb_height :: real

definition isElementInSelectionBox :: "Element \<Rightarrow> SelectionBox \<Rightarrow> bool" where
  "isElementInSelectionBox element box =
     (let selectionLeft =
            (if sb_width box \<ge> 0 then sb_startX box else sb_startX box + sb_width box);
          selectionRight =
            (if sb_width box \<ge> 0 then sb_startX box + sb_width box else sb_startX box);
          selectionTop =
            (if sb_height box \<ge> 0 then sb_startY box else sb_startY box + sb_height box);
          selectionBottom =
            (if sb_height box \<ge> 0 then sb_startY box + sb_height box else sb_startY box)
      in
      if e_type element = Rectangle then
        e_x element \<ge> selectionLeft \<and>
        e_x element + orZero (e_width element) \<le> selectionRight \<and>
        e_y element \<ge> selectionTop \<and>
        e_y element + orZero (e_height element) \<le> selectionBottom
      else if e_type element = Circle then
        e_x element - orZero (e_radius element) \<ge> selectionLeft \<and>
        e_x element + orZero (e_radius element) \<le> selectionRight \<and>
        e_y element - orZero (e_radius element) \<ge> selectionTop \<and>
        e_y element + orZero (e_radius element) \<le> selectionBottom
      else if e_type element = Text then
        (let textWidth = real (length (orEmpty (e_text element))) * 8;
             textHeight = 16
         in e_x element \<ge> selectionLeft \<and>
            e_x element + textWidth \<le> selectionRight \<and>
            e_y element - textHeight \<ge> selectionTop \<and>
            e_y element \<le> selectionBottom)
      else if e_type element = Line \<or> e_type element = Arrow then
        (case e_points element of
           None \<Rightarrow> False
         | Some pts \<Rightarrow>
             if length pts \<ge> 2 then
               (let start = pts ! 0;
                    end = pts ! 1
                in p_x start \<ge> selectionLeft \<and> p_x start \<le> selectionRight \<and>
                   p_y start \<ge> selectionTop \<and> p_y start \<le> selectionBottom \<and>
                   p_x end \<ge> selectionLeft \<and> p_x end \<le> selectionRight \<and>
                   p_y end \<ge> selectionTop \<and> p_y end \<le> selectionBottom)
             else False)
      else False)"

section \<open>Application state\<close>

text \<open>
  The state variables of the \<^verbatim>\<open>DrawingApp\<close> component that the event handlers read
  and write.  Events are handled one at a time, each on the state the previous one left.
\<close>

datatype Action = NoAction | Drawing | Moving | Resizing | Selecting

record App =
  history :: History
  selectedElement :: "Element option"
  tool :: ElementType
  color :: string
  strokeWidth :: real
  fill :: string
  action :: Action
  startPoint :: "Point option"
  activeHandle :: "HandlePosition option"
  clipboard :: "Element list"
  selectionBox :: "SelectionBox option"
  multiSelectMode :: bool

text \<open>
  A pointer event: the position is the one \<^verbatim>\<open>getMouseCoordinates\<close> returns, in scene
  coordinates.
\<close>

record MouseEvent =
  m_x :: real
  m_y :: real
  shiftKey :: bool
  altKey :: bool

definition initialApp :: App where
  "initialApp =
     \<lparr> history = \<lparr> past = [], present = [], future = [] \<rparr>,
       selectedElement = None,
       tool = Selection,
       color = ''#000000'',
       strokeWidth = 2,
       fill = ''transparent'',
       action = NoAction,
       startPoint = None,
       activeHandle = None,
       clipboard = [],
       selectionBox = None,
       multiSelectMode = False \<rparr>"

section \<open>Pointer events\<close>

text \<open>
  \<^verbatim>\<open>handleMouseDown\<close>, in three parts.  The argument \<open>now\<close> is the string
  \<^verbatim>\<open>Date.now().toString()\<close> that the handler reads from the clock when it creates an
  element.  The state \<open>s\<close> of the two branches below is the state after
  \<^verbatim>\<open>setMultiSelectMode(isShiftPressed)\<close>.
\<close>

text \<open>The branch \<^verbatim>\<open>if (clickedElement)\<close>: the pointer went down on an element.\<close>

definition mouseDownOnElement :: "string \<Rightarrow> MouseEvent \<Rightarrow> Element \<Rightarrow> App \<Rightarrow> App" where
  "mouseDownOnElement now e clickedElement s =
     (let x = m_x e;
          y = m_y e;
          elements = present (history s);
          isShiftPressed = shiftKey e;
          isAltPressed = altKey e
      in
      if isAltPressed then
        (let duplicatedElement = clickedElement\<lparr>e_id := now, e_selected := Some True\<rparr>;
             updatedElements =
               map (\<lambda>el. el\<lparr>e_selected :=
                            (if isShiftPressed then e_selected el
                             else Some (e_id el = e_id clickedElement))\<rparr>)
                 elements
         in s\<lparr>history := updateHistory (updatedElements @ [duplicatedElement]) (history s),
              selectedElement := Some duplicatedElement,
              action := Moving,
              startPoint := Some \<lparr>p_x = x, p_y = y\<rparr>\<rparr>)
      else if \<not> isShiftPressed \<and> \<not> truthy (e_selected clickedElement) then
        (let updatedElements =
               map (\<lambda>el. el\<lparr>e_selected := Some (e_id el = e_id clickedElement)\<rparr>) elements
         in s\<lparr>history := updateHistory updatedElements (history s),
              selectedElement := Some clickedElement,
              action := Moving,
              startPoint := Some \<lparr>p_x = x, p_y = y\<rparr>\<rparr>)
      else
        (let updatedElements =
               map (\<lambda>el.
                      if e_id el = e_id clickedElement then
                        el\<lparr>e_selected :=
                             Some (if isShiftPressed then \<not> truthy (e_selected el) else True)\<rparr>
                      else
                        el\<lparr>e_selected :=
                             (if isShiftPressed then e_selected el else Some False)\<rparr>)
                 elements
         in s\<lparr>history := updateHistory updatedElements (history s),
              selectedElement :=
                (if \<not> truthy (e_selected clickedElement) \<or> \<not> isShiftPressed
                 then Some clickedElement else selectedElement s),
              action := Moving,
              startPoint := Some \<lparr>p_x = x, p_y = y\<rparr>\<rparr>))"

text \<open>
  The element that the draw branch creates at \<open>(x, y)\<close> for the active tool: the
  freehand tool, the text tool, and the other tools.
\<close>

definition newElement :: "string \<Rightarrow> real \<Rightarrow> real \<Rightarrow> App \<Rightarrow> Element" where
  "newElement now x y s =
     (if tool s = Freehand then
        \<lparr> e_id = now, e_type = Line, e_x = 0, e_y = 0,
          e_width = None, e_height = None, e_radius = None,
          e_points = Some [\<lparr>p_x = x, p_y = y\<rparr>],
          e_text = None, e_fill = fill s, e_stroke = color s,
          e_strokeWidth = strokeWidth s, e_isDragging = False,
          e_selected = None, e_rotation = Some 0 \<rparr>
      else if tool s = Text then
        \<lparr> e_id = now, e_type = Text, e_x = x, e_y = y,
          e_width = None, e_height = None, e_radius = None,
          e_points = None,
          e_text = Some ''Double-click to edit'',
          e_fill = color s, e_stroke = ''transparent'',
          e_strokeWidth = 0, e_isDragging = False,
          e_selected = Some True, e_rotation = Some 0 \<rparr>
      else
        \<lparr> e_id = now, e_type = tool s, e_x = x, e_y = y,
          e_width = Some 0, e_height = Some 0,
          e_radius = (if tool s = Circle then Some 0 else None),
          e_points =
            (if tool s = Line \<or> tool s = Arrow
             then Some [\<lparr>p_x = x, p_y = y\<rparr>, \<lparr>p_x = x, p_y = y\<rparr>]
             else None),
          e_text = None, e_fill = fill s, e_stroke = color s,
          e_strokeWidth = strokeWidth s, e_isDragging = False,
          e_selected = None, e_rotation = Some 0 \<rparr>)"

text \<open>
  The rest of the handler: the pointer went down on empty space.  The variable
  \<open>elements\<close> is the scene the handler was rendered with: the freehand and shape
  branches append to it even when the first update of the same event has cleared the
  selection, and the two updates of the history are applied one after the other.
\<close>

definition mouseDownOnEmpty :: "string \<Rightarrow> MouseEvent \<Rightarrow> App \<Rightarrow> App" where
  "mouseDownOnEmpty now e s =
     (let x = m_x e;
          y = m_y e;
          elements = present (history s);
          isShiftPressed = shiftKey e;
          s1 =
            (if \<not> isShiftPressed \<and> list_ex (\<lambda>el. truthy (e_selected el)) elements then
               s\<lparr>history :=
                   updateHistory (map (\<lambda>el. el\<lparr>e_selected := Some False\<rparr>) elements)
                     (history s),
                 selectedElement := None\<rparr>
             else s)
      in
      if tool s = Selection \<or> isShiftPressed then
        s1\<lparr>action := Selecting,
           selectionBox :=
             Some \<lparr>sb_startX = x, sb_startY = y, sb_width = 0, sb_height = 0\<rparr>\<rparr>
      else
        (let s2 = s1\<lparr>action := Drawing, startPoint := Some \<lparr>p_x = x, p_y = y\<rparr>\<rparr>
         in
         if tool s = Text then
           (let updatedElements = map (\<lambda>el. el\<lparr>e_selected := Some False\<rparr>) elements
            in s2\<lparr>history := updateHistory (updatedElements @ [newElement now x y s]) (history s2),
                  selectedElement := Some (newElement now x y s)\<rparr>)
         else
           s2\<lparr>history := updateHistory (elements @ [newElement now x y s]) (history s2)\<rparr>))"

definition handleMouseDown :: "string \<Rightarrow> MouseEvent \<Rightarrow> App \<Rightarrow> App" where
  "handleMouseDown now e s0 =
     (let x = m_x e;
          y = m_y e;
          s = s0\<lparr>multiSelectMode := shiftKey e\<rparr>
      in
      case (case selectedElement s of
              None \<Rightarrow> None
            | Some sel \<Rightarrow> getHandleAtPosition x y sel) of
        Some handle \<Rightarrow>
          s\<lparr>action := Resizing,
            activeHandle := Some handle,
            startPoint := Some \<lparr>p_x = x, p_y = y\<rparr>\<rparr>
      | None \<Rightarrow>
          (case find (isPointInElement x y) (present (history s)) of
             Some clickedElement \<Rightarrow> mouseDownOnElement now e clickedElement s
           | None \<Rightarrow> mouseDownOnEmpty now e s))"

text \<open>
  \<^verbatim>\<open>setHistory((prev) => ({ ...prev, present: updatedElements }))\<close>: a live edit, which
  replaces the present scene and leaves \<open>past\<close> and \<open>future\<close> as they are.
\<close>

definition setPresent :: "Element list \<Rightarrow> App \<Rightarrow> App" where
  "setPresent updatedElements s = s\<lparr>history := (history s)\<lparr>present := updatedElements\<rparr>\<rparr>"

text \<open>\<^verbatim>\<open>el.points || []\<close> and \<^verbatim>\<open>el.points?.[0] || { x: 0, y: 0 }\<close>.\<close>

definition pointsOrEmpty :: "Element \<Rightarrow> Point list" where
  "pointsOrEmpty el = (case e_points el of None \<Rightarrow> [] | Some pts \<Rightarrow> pts)"

definition firstPointOrOrigin :: "Element \<Rightarrow> Point" where
  "firstPointOrOrigin el =
     (case e_points el of
        None \<Rightarrow> \<lparr>p_x = 0, p_y = 0\<rparr>
      | Some [] \<Rightarrow> \<lparr>p_x = 0, p_y = 0\<rparr>
      | Some (p # ps) \<Rightarrow> p)"

text \<open>The branch \<^verbatim>\<open>action === "selecting"\<close> of \<^verbatim>\<open>handleMouseMove\<close>.\<close>

definition mouseMoveSelecting :: "MouseEvent \<Rightarrow> App \<Rightarrow> App" where
  "mouseMoveSelecting e s =
     (case selectionBox s of
        None \<Rightarrow> s
      | Some box \<Rightarrow>
          s\<lparr>selectionBox :=
              Some (box\<lparr>sb_width := m_x e - sb_startX box,
                        sb_height := m_y e - sb_startY box\<rparr>)\<rparr>)"

text \<open>
  The branch \<^verbatim>\<open>action === "drawing"\<close>: only the last element of the scene is changed.
\<close>

definition mouseMoveDrawing :: "MouseEvent \<Rightarrow> App \<Rightarrow> App" where
  "mouseMoveDrawing e s =
     (let x = m_x e;
          y = m_y e;
          elements = present (history s)
      in
      if elements = [] then s
      else
        let lastElement = last elements
        in
        if tool s = Freehand \<and> e_points lastElement \<noteq> None then
          setPresent
            (mapIndexed
               (\<lambda>index el.
                  if index = length elements - 1
                  then el\<lparr>e_points := Some (pointsOrEmpty el @ [\<lparr>p_x = x, p_y = y\<rparr>])\<rparr>
                  else el)
               elements) s
        else if tool s = Rectangle then
          setPresent
            (mapIndexed
               (\<lambda>index el.
                  if index = length elements - 1 then
                    (if shiftKey e then
                       (let width = x - e_x el;
                            height = y - e_y el;
                            size = max \<bar>width\<bar> \<bar>height\<bar>
                        in el\<lparr>e_width := Some (if width \<ge> 0 then size else - size),
                              e_height := Some (if height \<ge> 0 then size else - size)\<rparr>)
                     else el\<lparr>e_width := Some (x - e_x el), e_height := Some (y - e_y el)\<rparr>)
                  else el)
               elements) s
        else if tool s = Circle then
          setPresent
            (mapIndexed
               (\<lambda>index el.
                  if index = length elements - 1 then
                    (let dx = x - e_x el;
                         dy = y - e_y el;
                         radius = sqrt (dx * dx + dy * dy)
                     in el\<lparr>e_radius := Some radius\<rparr>)
                  else el)
               elements) s
        else if (tool s = Line \<or> tool s = Arrow) \<and> e_points lastElement \<noteq> None then
          setPresent
            (mapIndexed
               (\<lambda>index el.
                  if index = length elements - 1 then
                    (if shiftKey e then
                       (let start = firstPointOrOrigin el;
                            dx = x - p_x start;
                            dy = y - p_y start;
                            angle = atan2 dy dx;
                            snapAngle = js_round (angle / (pi / 4)) * (pi / 4);
                            distance = sqrt (dx * dx + dy * dy);
                            snapX = p_x start + distance * cos snapAngle;
                            snapY = p_y start + distance * sin snapAngle
                        in el\<lparr>e_points := Some [start, \<lparr>p_x = snapX, p_y = snapY\<rparr>]\<rparr>)
                     else el\<lparr>e_points := Some [firstPointOrOrigin el, \<lparr>p_x = x, p_y = y\<rparr>]\<rparr>)
                  else el)
               elements) s
        else s)"

text \<open>
  The branch \<^verbatim>\<open>action === "moving"\<close>: every selected element is translated by the
  distance from the last pointer position \<open>sp\<close>, which is then replaced by the new one.
\<close>

definition mouseMoveMoving :: "MouseEvent \<Rightarrow> Point \<Rightarrow> App \<Rightarrow> App" where
  "mouseMoveMoving e sp s =
     (let x = m_x e;
          y = m_y e;
          elements = present (history s);
          dx = x - p_x sp;
          dy = y - p_y sp;
          constrainedDx = (if shiftKey e then (if \<bar>dx\<bar> > \<bar>dy\<bar> then dx else 0) else dx);
          constrainedDy = (if shiftKey e then (if \<bar>dy\<bar> > \<bar>dx\<bar> then dy else 0) else dy);
          updatedElements =
            map (\<lambda>el.
                   if truthy (e_selected el) then
                     (if e_type el = Rectangle \<or> e_type el = Text then
                        el\<lparr>e_x := e_x el + constrainedDx, e_y := e_y el + constrainedDy\<rparr>
                      else if e_type el = Circle then
                        el\<lparr>e_x := e_x el + constrainedDx, e_y := e_y el + constrainedDy\<rparr>
                      else if (e_type el = Line \<or> e_type el = Arrow) \<and> e_points el \<noteq> None then
                        el\<lparr>e_points :=
                             Some (map (\<lambda>point. \<lparr>p_x = p_x point + constrainedDx,
                                                  p_y = p_y point + constrainedDy\<rparr>)
                                     (pointsOrEmpty el))\<rparr>
                      else el)
                   else el)
              elements;
          s1 = setPresent updatedElements s;
          s2 =
            (case selectedElement s of
               None \<Rightarrow> s1
             | Some sel \<Rightarrow>
                 if truthy (e_selected sel) then
                   (case find (\<lambda>el. e_id el = e_id sel) updatedElements of
                      None \<Rightarrow> s1
                    | Some updatedSelectedElement \<Rightarrow>
                        s1\<lparr>selectedElement := Some updatedSelectedElement\<rparr>)
                 else s1)
      in s2\<lparr>startPoint := Some \<lparr>p_x = x, p_y = y\<rparr>\<rparr>)"

text \<open>
  The branch \<^verbatim>\<open>action === "resizing"\<close>, rotation handle: the pivot of the element
  \<open>el\<close> and its new angle for the pointer at \<open>(x, y)\<close>.
\<close>

definition rotationCenter :: "Element \<Rightarrow> Point" where
  "rotationCenter el =
     (if e_type el = Rectangle then
        \<lparr>p_x = e_x el + orZero (e_width el) / 2, p_y = e_y el + orZero (e_height el) / 2\<rparr>
      else if e_type el = Circle then
        \<lparr>p_x = e_x el, p_y = e_y el\<rparr>
      else if e_type el = Text then
        (let textWidth = real (length (orEmpty (e_text el))) * 8
         in \<lparr>p_x = e_x el + textWidth / 2, p_y = e_y el - 8\<rparr>)
      else if (e_type el = Line \<or> e_type el = Arrow) \<and> e_points el \<noteq> None
              \<and> length (pointsOrEmpty el) \<ge> 2 then
        (let start = pointsOrEmpty el ! 0;
             end = pointsOrEmpty el ! 1
         in \<lparr>p_x = (p_x start + p_x end) / 2, p_y = (p_y start + p_y end) / 2\<rparr>)
      else \<lparr>p_x = e_x el, p_y = e_y el\<rparr>)"

definition rotateElement :: "MouseEvent \<Rightarrow> Element \<Rightarrow> Element" where
  "rotateElement e el =
     (let center = rotationCenter el;
          angle = atan2 (m_y e - p_y center) (m_x e - p_x center) * (180 / pi);
          rotation = angle + 90;
          rotation' = (if shiftKey e then js_round (rotation / 15) * 15 else rotation)
      in el\<lparr>e_rotation := Some rotation'\<rparr>)"

text \<open>\<^verbatim>\<open>activeHandle.includes("top") || activeHandle.includes("bottom")\<close>.\<close>

definition includesTopOrBottom :: "HandlePosition \<Rightarrow> bool" where
  "includesTopOrBottom h =
     (h = TopLeft \<or> h = Top \<or> h = TopRight \<or> h = BottomLeft \<or> h = Bottom \<or> h = BottomRight)"

text \<open>The other handles: the new geometry of the element \<open>el\<close> that is being resized.\<close>

definition resizeElement :: "MouseEvent \<Rightarrow> HandlePosition \<Rightarrow> Element \<Rightarrow> Element" where
  "resizeElement e h el =
     (let x = m_x e;
          y = m_y e
      in
      if e_type el = Rectangle then
        (let w0 = orZero (e_width el);
             h0 = orZero (e_height el);
             newX = (if h = TopLeft \<or> h = Left \<or> h = BottomLeft then x else e_x el);
             newY = (if h = TopLeft \<or> h = Top \<or> h = TopRight then y else e_y el);
             newWidth =
               (if h = TopLeft \<or> h = Left \<or> h = BottomLeft then e_x el + w0 - x
                else if h = TopRight \<or> h = Right \<or> h = BottomRight then x - e_x el
                else w0);
             newHeight =
               (if h = TopLeft \<or> h = Top \<or> h = TopRight then e_y el + h0 - y
                else if h = BottomLeft \<or> h = Bottom \<or> h = BottomRight then y - e_y el
                else h0);
             keepRatio = (shiftKey e \<and> newWidth \<noteq> 0 \<and> newHeight \<noteq> 0);
             aspectRatio = orOne (e_width el) / orOne (e_height el);
             newWidth1 =
               (if keepRatio \<and> includesTopOrBottom h then newHeight * aspectRatio else newWidth);
             newHeight1 =
               (if keepRatio \<and> \<not> includesTopOrBottom h then newWidth / aspectRatio else newHeight);
             newX1 = (if newWidth1 < 0 then newX + newWidth1 else newX);
             newWidth2 = (if newWidth1 < 0 then \<bar>newWidth1\<bar> else newWidth1);
             newY1 = (if newHeight1 < 0 then newY + newHeight1 else newY);
             newHeight2 = (if newHeight1 < 0 then \<bar>newHeight1\<bar> else newHeight1)
         in el\<lparr>e_x := newX1, e_y := newY1,
               e_width := Some newWidth2, e_height := Some newHeight2\<rparr>)
      else if e_type el = Circle then
        (let newRadius =
               (if h = Top \<or> h = Bottom then \<bar>y - e_y el\<bar>
                else if h = Right \<or> h = Left then \<bar>x - e_x el\<bar>
                else orZero (e_radius el))
         in el\<lparr>e_radius := Some newRadius\<rparr>)
      else if (e_type el = Line \<or> e_type el = Arrow) \<and> e_points el \<noteq> None then
        (let points = pointsOrEmpty el
         in
         if h = Start \<and> length points > 0 then
           (if shiftKey e \<and> length points > 1 then
              (let end = points ! 1;
                   dx = p_x end - x;
                   dy = p_y end - y;
                   angle = atan2 dy dx;
                   snapAngle = js_round (angle / (pi / 4)) * (pi / 4);
                   distance = sqrt (dx * dx + dy * dy);
                   snapX = p_x end - distance * cos snapAngle;
                   snapY = p_y end - distance * sin snapAngle
               in el\<lparr>e_points := Some (points[0 := \<lparr>p_x = snapX, p_y = snapY\<rparr>])\<rparr>)
            else el\<lparr>e_points := Some (points[0 := \<lparr>p_x = x, p_y = y\<rparr>])\<rparr>)
         else if h = End \<and> length points > 1 then
           (if shiftKey e then
              (let start = points ! 0;
                   dx = x - p_x start;
                   dy = y - p_y start;
                   angle = atan2 dy dx;
                   snapAngle = js_round (angle / (pi / 4)) * (pi / 4);
                   distance = sqrt (dx * dx + dy * dy);
                   snapX = p_x start + distance * cos snapAngle;
                   snapY = p_y start + distance * sin snapAngle
               in el\<lparr>e_points := Some (points[1 := \<lparr>p_x = snapX, p_y = snapY\<rparr>])\<rparr>)
            else el\<lparr>e_points := Some (points[1 := \<lparr>p_x = x, p_y = y\<rparr>])\<rparr>)
         else el\<lparr>e_points := Some points\<rparr>)
      else if e_type el = Text then
        (let newX = (if h = TopLeft \<or> h = BottomLeft then x else e_x el);
             newY = (if h = TopLeft \<or> h = TopRight then y + 16 else e_y el)
         in el\<lparr>e_x := newX, e_y := newY\<rparr>)
      else el)"

definition mouseMoveResizing :: "MouseEvent \<Rightarrow> Element \<Rightarrow> HandlePosition \<Rightarrow> App \<Rightarrow> App" where
  "mouseMoveResizing e sel h s =
     (let elements = present (history s);
          updatedElements =
            map (\<lambda>el.
                   if e_id el = e_id sel then
                     (if h = Rotation then rotateElement e el else resizeElement e h el)
                   else el)
              elements;
          s1 = setPresent updatedElements s
      in
      case find (\<lambda>el. e_id el = e_id sel) updatedElements of
        None \<Rightarrow> s1
      | Some updatedElement \<Rightarrow> s1\<lparr>selectedElement := Some updatedElement\<rparr>)"

definition handleMouseMove :: "MouseEvent \<Rightarrow> App \<Rightarrow> App" where
  "handleMouseMove e s =
     (case startPoint s of
        None \<Rightarrow> s
      | Some sp \<Rightarrow>
          if action s = NoAction then s
          else if action s = Selecting then mouseMoveSelecting e s
          else if action s = Drawing then mouseMoveDrawing e s
          else if action s = Moving then mouseMoveMoving e sp s
          else
            (case (selectedElement s, activeHandle s) of
               (Some sel, Some h) \<Rightarrow>
                 if action s = Resizing then mouseMoveResizing e sel h s else s
             | _ \<Rightarrow> s))"

text \<open>
  \<^verbatim>\<open>handleMouseUp\<close>, which also handles the pointer leaving the canvas.  After a draw,
  move or resize gesture it pushes the present scene onto \<open>past\<close> and keeps it as the
  present scene.
\<close>

definition handleMouseUp :: "App \<Rightarrow> App" where
  "handleMouseUp s =
     (let elements = present (history s);
          s1 =
            (if action s = Drawing \<or> action s = Moving \<or> action s = Resizing then
               s\<lparr>history :=
                   \<lparr> past = sliceLast MAX_HISTORY_LENGTH (past (history s) @ [present (history s)]),
                     present = present (history s),
                     future = [] \<rparr>\<rparr>
             else
               (case selectionBox s of
                  None \<Rightarrow> s
                | Some box \<Rightarrow>
                    if action s = Selecting then
                      (let isSelectionTooSmall = (\<bar>sb_width box\<bar> < 5 \<and> \<bar>sb_height box\<bar> < 5);
                           s2 =
                             (if \<not> isSelectionTooSmall then
                                (let updatedElements =
                                       map (\<lambda>el.
                                              let isInside = isElementInSelectionBox el box
                                              in if multiSelectMode s then
                                                   el\<lparr>e_selected :=
                                                        (if isInside then Some (\<not> truthy (e_selected el))
                                                         else e_selected el)\<rparr>
                                                 else el\<lparr>e_selected := Some isInside\<rparr>)
                                         elements
                                 in s\<lparr>history := updateHistory updatedElements (history s),
                                      selectedElement :=
                                        find (\<lambda>el. truthy (e_selected el)) updatedElements\<rparr>)
                              else s)
                       in s2\<lparr>selectionBox := None\<rparr>)
                    else s))
      in s1\<lparr>action := NoAction, startPoint := None, activeHandle := None\<rparr>)"

section \<open>Keyboard shortcuts and clipboard\<close>

text \<open>
  The branches of \<^verbatim>\<open>handleKeyDown\<close> that change the scene or the clipboard, one
  function for each shortcut.  A copy of an element is made with
  \<^verbatim>\<open>JSON.parse(JSON.stringify(el))\<close>, which on values is the identity.  The new id of
  the \<open>i\<close>-th copied element is
  \<^verbatim>\<open>Date.now().toString() + Math.random().toString(36).substr(2, 9)\<close>; it comes from the
  clock and the random number generator, so it is the argument \<open>newId i\<close>.
\<close>

text \<open>Escape: deselect all elements, when one is selected.\<close>

definition keyEscape :: "App \<Rightarrow> App" where
  "keyEscape s =
     (let elements = present (history s)
      in if list_ex (\<lambda>el. truthy (e_selected el)) elements then
           s\<lparr>history :=
               updateHistory (map (\<lambda>el. el\<lparr>e_selected := Some False\<rparr>) elements) (history s),
             selectedElement := None\<rparr>
         else s)"

text \<open>Ctrl+Z and Ctrl+Y.\<close>

definition keyUndo :: "App \<Rightarrow> App" where
  "keyUndo s = s\<lparr>history := handleUndo (history s)\<rparr>"

definition keyRedo :: "App \<Rightarrow> App" where
  "keyRedo s = s\<lparr>history := handleRedo (history s)\<rparr>"

text \<open>Ctrl+A: select all.\<close>

definition keySelectAll :: "App \<Rightarrow> App" where
  "keySelectAll s =
     (let elements = present (history s);
          updatedElements = map (\<lambda>el. el\<lparr>e_selected := Some True\<rparr>) elements;
          s1 = s\<lparr>history := updateHistory updatedElements (history s)\<rparr>
      in if selectedElement s = None \<and> length updatedElements > 0
         then s1\<lparr>selectedElement := Some (updatedElements ! 0)\<rparr>
         else s1)"

text \<open>Ctrl+C: copy.\<close>

definition keyCopy :: "(nat \<Rightarrow> string) \<Rightarrow> App \<Rightarrow> App" where
  "keyCopy newId s =
     (let elements = present (history s);
          selectedElements = filter (\<lambda>el. truthy (e_selected el)) elements
      in if length selectedElements > 0 then
           (let copiedElements = mapIndexed (\<lambda>i el. el\<lparr>e_id := newId i\<rparr>) selectedElements
            in s\<lparr>clipboard := copiedElements\<rparr>)
         else s)"

text \<open>Ctrl+X: cut.\<close>

definition keyCut :: "(nat \<Rightarrow> string) \<Rightarrow> App \<Rightarrow> App" where
  "keyCut newId s =
     (let elements = present (history s);
          selectedElements = filter (\<lambda>el. truthy (e_selected el)) elements
      in if length selectedElements > 0 then
           (let copiedElements = mapIndexed (\<lambda>i el. el\<lparr>e_id := newId i\<rparr>) selectedElements;
                updatedElements = filter (\<lambda>el. \<not> truthy (e_selected el)) elements
            in s\<lparr>clipboard := copiedElements,
                 history := updateHistory updatedElements (history s),
                 selectedElement := None\<rparr>)
         else s)"

text \<open>
  The copy that paste and duplicate make of the element \<open>el\<close>: a new id, selected,
  moved by 20 in both directions; the points of a line or an arrow are moved as well.
\<close>

definition offsetCopy :: "string \<Rightarrow> Element \<Rightarrow> Element" where
  "offsetCopy newIdent el =
     (let newElement =
            el\<lparr>e_id := newIdent, e_selected := Some True,
               e_x := e_x el + 20, e_y := e_y el + 20\<rparr>
      in if (e_type el = Line \<or> e_type el = Arrow) \<and> e_points el \<noteq> None then
           newElement\<lparr>e_points :=
                        Some (map (\<lambda>point. \<lparr>p_x = p_x point + 20, p_y = p_y point + 20\<rparr>)
                                (pointsOrEmpty el))\<rparr>
         else newElement)"

text \<open>Ctrl+V: paste.\<close>

definition keyPaste :: "(nat \<Rightarrow> string) \<Rightarrow> App \<Rightarrow> App" where
  "keyPaste newId s =
     (let elements = present (history s)
      in if length (clipboard s) > 0 then
           (let deselectedElements = map (\<lambda>el. el\<lparr>e_selected := Some False\<rparr>) elements;
                pastedElements = mapIndexed (\<lambda>i el. offsetCopy (newId i) el) (clipboard s);
                s1 = s\<lparr>history := updateHistory (deselectedElements @ pastedElements) (history s)\<rparr>
            in if length pastedElements > 0
               then s1\<lparr>selectedElement := Some (pastedElements ! 0)\<rparr>
               else s1)
         else s)"

text \<open>Ctrl+D: duplicate.\<close>

definition keyDuplicate :: "(nat \<Rightarrow> string) \<Rightarrow> App \<Rightarrow> App" where
  "keyDuplicate newId s =
     (let elements = present (history s);
          selectedElements = filter (\<lambda>el. truthy (e_selected el)) elements
      in if length selectedElements > 0 then
           (let deselectedElements = map (\<lambda>el. el\<lparr>e_selected := Some False\<rparr>) elements;
                duplicatedElements =
                  mapIndexed (\<lambda>i el. offsetCopy (newId i) el) selectedElements;
                s1 = s\<lparr>history :=
                         updateHistory (deselectedElements @ duplicatedElements) (history s)\<rparr>
            in if length duplicatedElements > 0
               then s1\<lparr>selectedElement := Some (duplicatedElements ! 0)\<rparr>
               else s1)
         else s)"

text \<open>Delete and Backspace, and the delete button of the properties panel.\<close>

definition handleDeleteSelectedElements :: "App \<Rightarrow> App" where
  "handleDeleteSelectedElements s =
     (let elements = present (history s);
          updatedElements = filter (\<lambda>el. \<not> truthy (e_selected el)) elements
      in s\<lparr>history := updateHistory updatedElements (history s),
           selectedElement := None\<rparr>)"

definition keyDelete :: "App \<Rightarrow> App" where
  "keyDelete s =
     (if list_ex (\<lambda>el. truthy (e_selected el)) (present (history s))
      then handleDeleteSelectedElements s else s)"

text \<open>
  \<^verbatim>\<open>updateElementProperty(property, value)\<close>, which the properties panel calls with
  these ten property names: the edit is applied to every selected element and to the
  primary selected element, as one committed change.
\<close>

datatype PropertyEdit =
    PropX real
  | PropY real
  | PropWidth real
  | PropHeight real
  | PropRadius real
  | PropText string
  | PropRotation real
  | PropStroke string
  | PropStrokeWidth real
  | PropFill string

fun setProperty :: "PropertyEdit \<Rightarrow> Element \<Rightarrow> Element" where
  "setProperty (PropX v) el = el\<lparr>e_x := v\<rparr>"
| "setProperty (PropY v) el = el\<lparr>e_y := v\<rparr>"
| "setProperty (PropWidth v) el = el\<lparr>e_width := Some v\<rparr>"
| "setProperty (PropHeight v) el = el\<lparr>e_height := Some v\<rparr>"
| "setProperty (PropRadius v) el = el\<lparr>e_radius := Some v\<rparr>"
| "setProperty (PropText v) el = el\<lparr>e_text := Some v\<rparr>"
| "setProperty (PropRotation v) el = el\<lparr>e_rotation := Some v\<rparr>"
| "setProperty (PropStroke v) el = el\<lparr>e_stroke := v\<rparr>"
| "setProperty (PropStrokeWidth v) el = el\<lparr>e_strokeWidth := v\<rparr>"
| "setProperty (PropFill v) el = el\<lparr>e_fill := v\<rparr>"

definition updateElementProperty :: "PropertyEdit \<Rightarrow> App \<Rightarrow> App" where
  "updateElementProperty p s =
     (let elements = present (history s)
      in if \<not> list_ex (\<lambda>el. truthy (e_selected el)) elements then s
         else
           (let updatedElements =
                  map (\<lambda>el. if truthy (e_selected el) then setProperty p el else el) elements
            in s\<lparr>history := updateHistory updatedElements (history s),
                 selectedElement :=
                   (case selectedElement s of
                      None \<Rightarrow> None
                    | Some sel \<Rightarrow> Some (setProperty p sel))\<rparr>))"

text \<open>
  \<^verbatim>\<open>handleImport\<close>, once the file has been read and parsed: the document replaces the
  scene, as one committed change.
\<close>

definition handleImport :: "Element list \<Rightarrow> App \<Rightarrow> App" where
  "handleImport importedElements s =
     s\<lparr>history := updateHistory importedElements (history s)\<rparr>"

section \<open>Events\<close>

text \<open>
  The events of the editor and the handler each one runs.  The values that a handler
  reads from the clock and the random number generator travel with the event.  The
  inline text editor that a double click opens, the zoom, the grid and the theme are
  not part of this model.
\<close>

datatype Event =
    MouseDown string MouseEvent
  | MouseMove MouseEvent
  | MouseUp
  | Undo
  | Redo
  | Escape
  | SelectAll
  | Copy "nat \<Rightarrow> string"
  | Cut "nat \<Rightarrow> string"
  | Paste "nat \<Rightarrow> string"
  | Duplicate "nat \<Rightarrow> string"
  | Delete
  | SetTool ElementType
  | EditProperty PropertyEdit
  | Import "Element list"

fun step :: "App \<Rightarrow> Event \<Rightarrow> App" where
  "step s (MouseDown now e) = handleMouseDown now e s"
| "step s (MouseMove e) = handleMouseMove e s"
| "step s MouseUp = handleMouseUp s"
| "step s Undo = keyUndo s"
| "step s Redo = keyRedo s"
| "step s Escape = keyEscape s"
| "step s SelectAll = keySelectAll s"
| "step s (Copy newId) = keyCopy newId s"
| "step s (Cut newId) = keyCut newId s"
| "step s (Paste newId) = keyPaste newId s"
| "step s (Duplicate newId) = keyDuplicate newId s"
| "step s Delete = keyDelete s"
| "step s (SetTool t) = s\<lparr>tool := t\<rparr>"
| "step s (EditProperty p) = updateElementProperty p s"
| "step s (Import importedElements) = handleImport importedElements s"

definition run :: "App \<Rightarrow> Event list \<Rightarrow> App" where
  "run s evs = foldl step s evs"

section \<open>Reference geometry\<close>





section \<open>Example scenes\<close>


definition lineToolApp :: App where
  "lineToolApp = initialApp\<lparr>tool := Line\<rparr>"

text \<open>A pointer event at \<open>(x, y)\<close> with no modifier key held.\<close>

definition pointerAt :: "real \<Rightarrow> real \<Rightarrow> MouseEvent" where
  "pointerAt x y = \<lparr>m_x = x, m_y = y, shiftKey = False, altKey = False\<rparr>"

text \<open>
  The rectangle that covers the same region as \<open>el\<close> with its origin at the corner of
  least coordinates and a width and a height that are not negative.
\<close>

definition normalizedRectangle :: "Element \<Rightarrow> Element" where
  "normalizedRectangle el =
     el\<lparr>e_x := min (e_x el) (e_x el + orZero (e_width el)),
        e_y := min (e_y el) (e_y el + orZero (e_height el)),
        e_width := Some \<bar>orZero (e_width el)\<bar>,
        e_height := Some \<bar>orZero (e_height el)\<bar>\<rparr>"

definition rectangleToolApp :: App where
  "rectangleToolApp = initialApp\<lparr>tool := Rectangle\<rparr>"

definition draggedRectangle :: Element where
  "draggedRectangle =
     \<lparr> e_id = ''1000'', e_type = Rectangle, e_x = 10, e_y = 10,
       e_width = Some (- 5), e_height = Some (- 5), e_radius = None,
       e_points = None,
       e_text = None, e_fill = ''transparent'', e_stroke = ''#000000'',
       e_strokeWidth = 2, e_isDragging = False,
       e_selected = None, e_rotation = Some 0 \<rparr>"

section \<open>Paste and duplicate: the copies\<close>





definition bottomRectangle :: Element where
  "bottomRectangle =
     \<lparr> e_id = ''1000'', e_type = Rectangle, e_x = 0, e_y = 0,
       e_width = Some 100, e_height = Some 100, e_radius = None,
       e_points = None,
       e_text = None, e_fill = ''transparent'', e_stroke = ''#000000'',
       e_strokeWidth = 2, e_isDragging = False,
       e_selected = None, e_rotation = Some 0 \<rparr>"

definition topRectangle :: Element where
  "topRectangle =
     \<lparr> e_id = ''2000'', e_type = Rectangle, e_x = - 50, e_y = 50,
       e_width = Some 100, e_height = Some 100, e_radius = None,
       e_points = None,
       e_text = None, e_fill = ''transparent'', e_stroke = ''#000000'',
       e_strokeWidth = 2, e_isDragging = False,
       e_selected = None, e_rotation = Some 0 \<rparr>"

definition twoRectanglesApp :: App where
  "twoRectanglesApp =
     run rectangleToolApp
       [MouseDown ''1000'' (pointerAt 0 0), MouseMove (pointerAt 100 100), MouseUp,
        MouseDown ''2000'' (pointerAt (- 50) 50), MouseMove (pointerAt 50 150), MouseUp]"

text \<open>Twenty pointer-move events along a diagonal.\<close>

definition twentyMoves :: "Event list" where
  "twentyMoves = map (\<lambda>k. MouseMove (pointerAt (25 + real k) (75 + real k))) [1..<21]"

section \<open>Invariants of the scene\<close>

text \<open>The id and the kind of every element of a scene, in order.\<close>

definition keys :: "Element list \<Rightarrow> (string \<times> ElementType) list" where
  "keys xs = map (\<lambda>el. (e_id el, e_type el)) xs"

text \<open>All the scenes that a history holds: the present one, the past and the future ones.\<close>

definition snapshots :: "History \<Rightarrow> Element list list" where
  "snapshots h = present h # past h @ future h"

text \<open>No two elements of the scene share an id.\<close>

definition uniqueIds :: "Element list \<Rightarrow> bool" where
  "uniqueIds xs = distinct (map e_id xs)"

text \<open>No element of the scene has the kind \<^verbatim>\<open>"freehand"\<close>.\<close>

definition noFreehand :: "Element list \<Rightarrow> bool" where
  "noFreehand xs = list_all (\<lambda>el. e_type el \<noteq> Freehand) xs"

text \<open>
  The ids that the event brings from the clock and the random number generator are new:
  they differ from every id of the present scene and from one another.  For an import,
  the ids of the document differ from one another.
\<close>

fun idsFresh :: "App \<Rightarrow> Event \<Rightarrow> bool" where
  "idsFresh s (MouseDown now e) = (now \<notin> set (map e_id (present (history s))))"
| "idsFresh s (Paste newId) =
     (let ids = map newId [0..<length (clipboard s)]
      in distinct ids \<and> list_all (\<lambda>i. i \<notin> set (map e_id (present (history s)))) ids)"
| "idsFresh s (Duplicate newId) =
     (let ids = map newId
                  [0..<length (filter (\<lambda>el. truthy (e_selected el)) (present (history s)))]
      in distinct ids \<and> list_all (\<lambda>i. i \<notin> set (map e_id (present (history s)))) ids)"
| "idsFresh s (Import importedElements) = uniqueIds importedElements"
| "idsFresh s ev = True"

text \<open>The same for every event of a sequence, each in the state it is handled in.\<close>

fun allFresh :: "App \<Rightarrow> Event list \<Rightarrow> bool" where
  "allFresh s [] = True"
| "allFresh s (ev # evs) = (idsFresh s ev \<and> allFresh (step s ev) evs)"

text \<open>A session: draw a rectangle, select all, copy, paste, cut, undo, redo.\<close>

definition editingSession :: "Event list" where
  "editingSession =
     [MouseDown ''1000'' (pointerAt 0 0), MouseMove (pointerAt 100 100), MouseUp,
      SelectAll, Copy (\<lambda>i. ''1500c''), Paste (\<lambda>i. ''2000p''),
      Cut (\<lambda>i. ''2500x''), Undo, Redo]"






section \<open>Lists: the last entries and indexed maps\<close>

lemma MAX_HISTORY_LENGTH_pos: "0 < MAX_HISTORY_LENGTH"
  by (simp add: MAX_HISTORY_LENGTH_def)

lemma take_MAX_single: "take MAX_HISTORY_LENGTH [S] = [S]"
  using MAX_HISTORY_LENGTH_pos by (cases MAX_HISTORY_LENGTH) simp_all

lemma sliceLast_snoc: "0 < n \<Longrightarrow> sliceLast n (xs @ [x]) = sliceLast (n - 1) xs @ [x]"
  by (cases n) (simp_all add: sliceLast_def)

lemma sliceLast_MAX_snoc:
  "sliceLast MAX_HISTORY_LENGTH (xs @ [x]) = sliceLast (MAX_HISTORY_LENGTH - 1) xs @ [x]"
  by (rule sliceLast_snoc [OF MAX_HISTORY_LENGTH_pos])

lemma length_sliceLast: "length (sliceLast n xs) = min n (length xs)"
  by (simp add: sliceLast_def)

lemma set_sliceLast: "set (sliceLast n xs) \<subseteq> set xs"
  by (simp add: sliceLast_def set_drop_subset)

lemma sliceLast_sliceLast_snoc:
  "0 < n \<Longrightarrow> sliceLast n (sliceLast n xs @ [y]) = sliceLast n (xs @ [y])"
  by (cases "length xs \<le> n") (simp_all add: sliceLast_def Suc_diff_le)

lemma mapIndexed_Nil [simp]: "mapIndexed f [] = []"
  by (simp add: mapIndexed_def)

lemma length_mapIndexed [simp]: "length (mapIndexed f xs) = length xs"
  by (simp add: mapIndexed_def)

lemma nth_mapIndexed [simp]: "i < length xs \<Longrightarrow> mapIndexed f xs ! i = f i (xs ! i)"
  by (simp add: mapIndexed_def nth_enumerate_eq)

lemma mapIndexed_single [simp]: "mapIndexed f [x] = [f 0 x]"
  by (simp add: mapIndexed_def)

lemma mapIndexed_Cons [simp]:
  "mapIndexed f (x # xs) = f 0 x # mapIndexed (\<lambda>i. f (Suc i)) xs"
  by (simp add: mapIndexed_def enumerate_Suc_eq split_def)

lemma mapIndexed_eq_Nil [simp]: "(mapIndexed f xs = []) = (xs = [])"
  by (cases xs) (simp_all add: mapIndexed_def)


lemma find_first_index:
  assumes "i < length xs" and "P (xs ! i)" and "\<forall>j<i. \<not> P (xs ! j)"
  shows "find P xs = Some (xs ! i)"
  using assms by (auto simp add: find_Some_iff)

section \<open>The history manager\<close>

lemma present_updateHistory [simp]: "present (updateHistory S h) = S"
  by (simp add: updateHistory_def)

lemma past_updateHistory:
  "past (updateHistory S h) = sliceLast MAX_HISTORY_LENGTH (past h @ [present h])"
  by (simp add: updateHistory_def)

lemma future_updateHistory [simp]: "future (updateHistory S h) = []"
  by (simp add: updateHistory_def)

lemma past_updateHistory_subset:
  "set (past (updateHistory S h)) \<subseteq> insert (present h) (set (past h))"
  using set_sliceLast [of MAX_HISTORY_LENGTH "past h @ [present h]"]
  by (auto simp add: updateHistory_def)

lemma handleUndo_snoc:
  "handleUndo \<lparr> past = q @ [x], present = S, future = f \<rparr> =
     \<lparr> past = q, present = x, future = take MAX_HISTORY_LENGTH (S # f) \<rparr>"
  by (simp add: handleUndo_def Let_def)

lemma handleUndo_updateHistory:
  "handleUndo (updateHistory S h) =
     \<lparr> past = sliceLast (MAX_HISTORY_LENGTH - 1) (past h),
       present = present h,
       future = [S] \<rparr>"
  unfolding updateHistory_def sliceLast_MAX_snoc handleUndo_snoc take_MAX_single ..

lemma handleUndo_shape:
  "set (past (handleUndo h)) \<subseteq> set (past h) \<and>
   set (future (handleUndo h)) \<subseteq> insert (present h) (set (future h)) \<and>
   present (handleUndo h) \<in> insert (present h) (set (past h))"
proof (cases "past h = []")
  case True
  then show ?thesis by (auto simp add: handleUndo_def)
next
  case False
  have "set (take MAX_HISTORY_LENGTH (present h # future h)) \<subseteq> insert (present h) (set (future h))"
    using set_take_subset [of MAX_HISTORY_LENGTH "present h # future h"] by simp
  moreover have "set (take (length (past h) - 1) (past h)) \<subseteq> set (past h)"
    by (rule set_take_subset)
  moreover have "past h ! (length (past h) - 1) \<in> set (past h)"
    using False by simp
  ultimately show ?thesis
    using False by (simp add: handleUndo_def Let_def)
qed

lemma handleRedo_shape:
  "set (past (handleRedo h)) \<subseteq> insert (present h) (set (past h)) \<and>
   set (future (handleRedo h)) \<subseteq> set (future h) \<and>
   present (handleRedo h) \<in> insert (present h) (set (future h))"
proof (cases "future h")
  case Nil
  then show ?thesis by (auto simp add: handleRedo_def)
next
  case (Cons f fs)
  have "set (sliceLast MAX_HISTORY_LENGTH (past h @ [present h])) \<subseteq> insert (present h) (set (past h))"
    using set_sliceLast [of MAX_HISTORY_LENGTH "past h @ [present h]"] by simp
  then show ?thesis
    using Cons by (auto simp add: handleRedo_def Let_def)
qed

text \<open>
  C1.  From every history state and for every scene \<open>S\<close>: committing \<open>S\<close> and undoing
  gives back exactly the scene that was present before the commit, and redoing after
  that gives back exactly \<open>S\<close>.  Scenes are compared by equality of element lists, that
  is of every field of every element.
\<close>

theorem commit_undo_redo_inverse:
  "present (handleUndo (updateHistory S h)) = present h \<and>
   present (handleRedo (handleUndo (updateHistory S h))) = S"
  by (simp add: handleUndo_updateHistory handleRedo_def)

text \<open>
  C5.  A commit empties \<open>future\<close>: \<^verbatim>\<open>updateHistory\<close> does, and so does the commit that
  a pointer-up makes after a draw, move or resize gesture.  Undo, redo and live edits do
  not: an undo that changes the state puts the old present scene in front of \<open>future\<close>
  (so \<open>future\<close> is not empty after it), a redo removes from \<open>future\<close> only its first
  entry, the one that it makes the present scene, and a live edit leaves \<open>future\<close> as
  it is.  After an undo and a new commit, redo changes nothing.
\<close>

theorem future_cleared_only_by_commit:
  "future (updateHistory S h) = [] \<and>
   future (history (handleMouseUp (s\<lparr>action := Drawing\<rparr>))) = [] \<and>
   future (history (handleMouseUp (s\<lparr>action := Moving\<rparr>))) = [] \<and>
   future (history (handleMouseUp (s\<lparr>action := Resizing\<rparr>))) = [] \<and>
   future (handleUndo h) =
     (if past h = [] then future h else take MAX_HISTORY_LENGTH (present h # future h)) \<and>
   future (handleUndo (updateHistory S h)) \<noteq> [] \<and>
   future (handleRedo h) = tl (future h) \<and>
   present (handleRedo h) = (if future h = [] then present h else hd (future h)) \<and>
   future (history (setPresent S s)) = future (history s) \<and>
   handleRedo (updateHistory S (handleUndo h)) = updateHistory S (handleUndo h)"
proof -
  have 1: "future (updateHistory S h) = []"
    by (simp add: updateHistory_def)
  have 2: "future (handleUndo h) =
     (if past h = [] then future h else take MAX_HISTORY_LENGTH (present h # future h))"
    by (simp add: handleUndo_def Let_def)
  have 3: "future (handleUndo (updateHistory S h)) \<noteq> []"
    by (simp add: handleUndo_updateHistory)
  have 4: "future (handleRedo h) = tl (future h)"
    by (cases "future h") (simp_all add: handleRedo_def Let_def)
  have 5: "present (handleRedo h) = (if future h = [] then present h else hd (future h))"
    by (cases "future h") (simp_all add: handleRedo_def Let_def)
  have 6: "handleRedo (updateHistory S (handleUndo h)) = updateHistory S (handleUndo h)"
    by (simp add: handleRedo_def updateHistory_def)
  have 7: "future (history (handleMouseUp (s\<lparr>action := Drawing\<rparr>))) = []"
    "future (history (handleMouseUp (s\<lparr>action := Moving\<rparr>))) = []"
    "future (history (handleMouseUp (s\<lparr>action := Resizing\<rparr>))) = []"
    by (simp_all add: handleMouseUp_def Let_def)
  have 8: "future (history (setPresent S s)) = future (history s)"
    by (simp add: setPresent_def)
  from 1 2 3 4 5 6 7 8 show ?thesis by blast
qed

section \<open>Sequences of events and the example scenes\<close>

lemma run_Nil: "run s [] = s"
  by (simp add: run_def)

lemma run_Cons: "run s (ev # evs) = run (step s ev) evs"
  by (simp add: run_def)

lemma run_snoc: "run s (evs @ [ev]) = step (run s evs) ev"
  by (simp add: run_def)

lemma run_append: "run s (evs @ evs') = run (run s evs) evs'"
  by (simp add: run_def)

text \<open>The definitions that the evaluation of a handler on a given state unfolds.\<close>

lemmas eval_defs =
  handleMouseDown_def mouseDownOnEmpty_def mouseDownOnElement_def newElement_def
  handleMouseMove_def mouseMoveDrawing_def mouseMoveMoving_def handleMouseUp_def
  setPresent_def updateHistory_def sliceLast_def MAX_HISTORY_LENGTH_def
  isPointInElement_def getHandleAtPosition_def orZero_def truthy_def
  rectangleToolApp_def initialApp_def pointerAt_def Let_def

lemmas key_defs =
  keyEscape_def keyUndo_def keyRedo_def keySelectAll_def keyCopy_def keyCut_def keyPaste_def
  keyDuplicate_def keyDelete_def handleDeleteSelectedElements_def handleImport_def
  handleUndo_def handleRedo_def offsetCopy_def

lemma setPresent_history [simp]:
  "past (history (setPresent S s)) = past (history s)"
  "present (history (setPresent S s)) = S"
  "future (history (setPresent S s)) = future (history s)"
  "clipboard (setPresent S s) = clipboard s"
  by (simp_all add: setPresent_def)

lemma handleMouseDown_resize:
  assumes "(case selectedElement s of None \<Rightarrow> None
            | Some sel \<Rightarrow> getHandleAtPosition (m_x e) (m_y e) sel) = Some h"
  shows "handleMouseDown now e s =
           s\<lparr>multiSelectMode := shiftKey e, action := Resizing, activeHandle := Some h,
             startPoint := Some \<lparr>p_x = m_x e, p_y = m_y e\<rparr>\<rparr>"
  using assms by (simp add: handleMouseDown_def Let_def)

lemma handleMouseDown_hit:
  assumes nohandle:
      "(case selectedElement s of None \<Rightarrow> None
        | Some sel \<Rightarrow> getHandleAtPosition (m_x e) (m_y e) sel) = None"
    and f: "find (isPointInElement (m_x e) (m_y e)) (present (history s)) = Some c"
  shows "handleMouseDown now e s = mouseDownOnElement now e c (s\<lparr>multiSelectMode := shiftKey e\<rparr>)"
  using assms by (simp add: handleMouseDown_def Let_def)

lemma handleMouseDown_empty:
  assumes nohandle:
      "(case selectedElement s of None \<Rightarrow> None
        | Some sel \<Rightarrow> getHandleAtPosition (m_x e) (m_y e) sel) = None"
    and f: "find (isPointInElement (m_x e) (m_y e)) (present (history s)) = None"
  shows "handleMouseDown now e s = mouseDownOnEmpty now e (s\<lparr>multiSelectMode := shiftKey e\<rparr>)"
  using assms by (simp add: handleMouseDown_def Let_def)

text \<open>
  Dragging with the rectangle tool from \<open>(10, 10)\<close> up and to the left to \<open>(5, 5)\<close>
  leaves a rectangle of width \<open>-5\<close> and height \<open>-5\<close> in the scene.
\<close>

lemma drag_up_left:
  "present (history (run rectangleToolApp
      [MouseDown ''1000'' (pointerAt 10 10), MouseMove (pointerAt 5 5), MouseUp]))
   = [draggedRectangle]"
proof -
  have 1: "handleMouseDown ''1000'' (pointerAt 10 10) rectangleToolApp =
     rectangleToolApp\<lparr>action := Drawing, startPoint := Some \<lparr>p_x = 10, p_y = 10\<rparr>,
       history := \<lparr>past = [[]], present = [draggedRectangle\<lparr>e_width := Some 0, e_height := Some 0\<rparr>], future = []\<rparr>\<rparr>"
    by (simp add: handleMouseDown_def mouseDownOnEmpty_def newElement_def rectangleToolApp_def
        initialApp_def pointerAt_def Let_def
        updateHistory_def draggedRectangle_def sliceLast_def MAX_HISTORY_LENGTH_def)
  show ?thesis
    unfolding run_def
    apply (simp add: 1)
    apply (simp add: handleMouseMove_def mouseMoveDrawing_def rectangleToolApp_def initialApp_def
        pointerAt_def Let_def setPresent_def draggedRectangle_def handleMouseUp_def)
    done
qed

text \<open>
  Two rectangles are drawn, the second one later and overlapping the first; the point
  \<open>(25, 75)\<close> lies inside both.
\<close>

lemma twoRectanglesApp_eval:
  "twoRectanglesApp =
     rectangleToolApp
       \<lparr>history :=
          \<lparr>past = [[], [bottomRectangle], [bottomRectangle], [bottomRectangle, topRectangle]],
           present = [bottomRectangle, topRectangle],
           future = []\<rparr>\<rparr>"
  unfolding twoRectanglesApp_def run_def
  by (simp add: eval_defs bottomRectangle_def topRectangle_def)

lemma click_on_twoRectangles:
  "(case selectedElement twoRectanglesApp of None \<Rightarrow> None
    | Some sel \<Rightarrow> getHandleAtPosition (m_x (pointerAt 25 75)) (m_y (pointerAt 25 75)) sel) = None"
  "find (isPointInElement (m_x (pointerAt 25 75)) (m_y (pointerAt 25 75)))
     (present (history twoRectanglesApp)) = Some bottomRectangle"
  by (simp_all add: twoRectanglesApp_eval rectangleToolApp_def initialApp_def
        isPointInElement_def bottomRectangle_def pointerAt_def orZero_def)

text \<open>
  The element that a pointer-down with the line tool creates has both points at the
  pointer position.
\<close>

lemma seeded_line:
  "present (history (handleMouseDown ''1000'' (pointerAt 30 40) lineToolApp)) =
     [\<lparr> e_id = ''1000'', e_type = Line, e_x = 30, e_y = 40,
       e_width = Some 0, e_height = Some 0, e_radius = None,
       e_points = Some [\<lparr>p_x = 30, p_y = 40\<rparr>, \<lparr>p_x = 30, p_y = 40\<rparr>],
       e_text = None, e_fill = ''transparent'', e_stroke = ''#000000'',
       e_strokeWidth = 2, e_isDragging = False,
       e_selected = None, e_rotation = Some 0 \<rparr>]"
  by (simp add: handleMouseDown_def mouseDownOnEmpty_def newElement_def lineToolApp_def initialApp_def
      pointerAt_def Let_def updateHistory_def)



section \<open>Hit test of lines and arrows\<close>








lemma isPointInElement_line:
  assumes "e_type el = Line \<or> e_type el = Arrow" and "e_points el = Some (a # b # rest)"
  shows "isPointInElement x y el =
         js_lt (js_div
                  \<bar>(p_y b - p_y a) * x - (p_x b - p_x a) * y + p_x b * p_y a - p_y b * p_x a\<bar>
                  (sqrt ((p_x b - p_x a) ^ 2 + (p_y b - p_y a) ^ 2))) 10"
  using assms by (auto simp add: isPointInElement_def Let_def)





text \<open>
  C10.  For a line or an arrow whose first two points coincide, the hit test divides
  zero by the zero length, which gives \<^verbatim>\<open>NaN\<close>, and returns false for every point.
\<close>

theorem degenerate_line_never_hit:
  assumes "e_type el = Line \<or> e_type el = Arrow"
    and "e_points el = Some (a # a # rest)"
  shows "\<not> isPointInElement x y el \<and>
         js_div \<bar>(p_y a - p_y a) * x - (p_x a - p_x a) * y + p_x a * p_y a - p_y a * p_x a\<bar>
           (sqrt ((p_x a - p_x a) ^ 2 + (p_y a - p_y a) ^ 2)) = NaN"
  unfolding isPointInElement_line [OF assms]
  by (simp add: js_div_def js_lt_def)

text \<open>
  The line that a pointer-down at \<open>(30, 40)\<close> has just created is not hit, even at
  \<open>(30, 40)\<close>.
\<close>

theorem degenerate_line_witness:
  "\<not> isPointInElement 30 40 (hd (present (history (handleMouseDown ''1000'' (pointerAt 30 40) lineToolApp))))"
  unfolding seeded_line
  using degenerate_line_never_hit [of _ "\<lparr>p_x = 30, p_y = 40\<rparr>" "[]" 30 40]
  by simp

section \<open>Rectangles of negative extent\<close>

text \<open>No point hits a rectangle whose width or height is negative.\<close>

lemma negative_rectangle_never_hit:
  assumes "e_type el = Rectangle"
    and "orZero (e_width el) < 0 \<or> orZero (e_height el) < 0"
  shows "\<not> isPointInElement x y el"
  using assms by (auto simp add: isPointInElement_def)

text \<open>
  C8.  The geometry functions do not treat a rectangle of negative width and height as
  the normalized rectangle of the same region.  The rectangle dragged from \<open>(10, 10)\<close>
  to \<open>(5, 5)\<close> covers the square from \<open>(5, 5)\<close> to \<open>(10, 10)\<close>: the point \<open>(7, 7)\<close>
  does not hit it although it hits the normalized rectangle, and the selection box from
  \<open>(0, 0)\<close> to \<open>(8, 8)\<close> is found to contain it although it does not contain the
  normalized rectangle.
\<close>

theorem negative_rectangle_not_normalized:
  "present (history (run rectangleToolApp
      [MouseDown ''1000'' (pointerAt 10 10), MouseMove (pointerAt 5 5), MouseUp]))
     = [draggedRectangle] \<and>
   isPointInElement 7 7 draggedRectangle = False \<and>
   isPointInElement 7 7 (normalizedRectangle draggedRectangle) = True \<and>
   isElementInSelectionBox draggedRectangle
     \<lparr>sb_startX = 0, sb_startY = 0, sb_width = 8, sb_height = 8\<rparr> = True \<and>
   isElementInSelectionBox (normalizedRectangle draggedRectangle)
     \<lparr>sb_startX = 0, sb_startY = 0, sb_width = 8, sb_height = 8\<rparr> = False"
  by (simp add: drag_up_left)
    (simp add: isPointInElement_def isElementInSelectionBox_def normalizedRectangle_def
       draggedRectangle_def orZero_def)

section \<open>Paste\<close>

lemma offsetCopy_fields:
  "e_id (offsetCopy i el) = i"
  "e_x (offsetCopy i el) = e_x el + 20"
  "e_y (offsetCopy i el) = e_y el + 20"
  "e_selected (offsetCopy i el) = Some True"
  "e_type (offsetCopy i el) = e_type el"
  "e_width (offsetCopy i el) = e_width el"
  "e_height (offsetCopy i el) = e_height el"
  "e_radius (offsetCopy i el) = e_radius el"
  "e_text (offsetCopy i el) = e_text el"
  "e_fill (offsetCopy i el) = e_fill el"
  "e_stroke (offsetCopy i el) = e_stroke el"
  "e_strokeWidth (offsetCopy i el) = e_strokeWidth el"
  "e_rotation (offsetCopy i el) = e_rotation el"
  by (simp_all add: offsetCopy_def Let_def)






section \<open>Pointer-down: which element is hit\<close>

lemma select_only_clicked:
  "(\<lambda>el. if e_id el = e_id c then el\<lparr>e_selected := Some True\<rparr>
         else el\<lparr>e_selected := Some False\<rparr>)
   = (\<lambda>el. el\<lparr>e_selected := Some (e_id el = e_id c)\<rparr>)"
  by (rule ext) simp

lemma mouseDownOnElement_plain:
  assumes "\<not> altKey e" and "\<not> shiftKey e"
  shows "mouseDownOnElement now e c s =
     s\<lparr>history :=
         updateHistory (map (\<lambda>el. el\<lparr>e_selected := Some (e_id el = e_id c)\<rparr>) (present (history s)))
           (history s),
       selectedElement := Some c,
       action := Moving,
       startPoint := Some \<lparr>p_x = m_x e, p_y = m_y e\<rparr>\<rparr>"
  using assms by (simp add: mouseDownOnElement_def Let_def select_only_clicked cong: if_cong)

lemma mouseDownOnElement_shift:
  assumes "\<not> altKey e" and "shiftKey e"
  shows "mouseDownOnElement now e c s =
     s\<lparr>history :=
         updateHistory
           (map (\<lambda>el. if e_id el = e_id c
                      then el\<lparr>e_selected := Some (\<not> truthy (e_selected el))\<rparr> else el)
              (present (history s)))
           (history s),
       selectedElement := (if \<not> truthy (e_selected c) then Some c else selectedElement s),
       action := Moving,
       startPoint := Some \<lparr>p_x = m_x e, p_y = m_y e\<rparr>\<rparr>"
  using assms by (simp add: mouseDownOnElement_def Let_def cong: if_cong)

lemma mouseDownOnElement_alt:
  assumes "altKey e"
  shows "mouseDownOnElement now e c s =
     s\<lparr>history :=
         updateHistory
           (map (\<lambda>el. el\<lparr>e_selected :=
                         (if shiftKey e then e_selected el else Some (e_id el = e_id c))\<rparr>)
              (present (history s))
            @ [c\<lparr>e_id := now, e_selected := Some True\<rparr>])
           (history s),
       selectedElement := Some (c\<lparr>e_id := now, e_selected := Some True\<rparr>),
       action := Moving,
       startPoint := Some \<lparr>p_x = m_x e, p_y = m_y e\<rparr>\<rparr>"
  using assms by (simp add: mouseDownOnElement_def Let_def)

lemma mouseDownOnElement_commits:
  "past (history (mouseDownOnElement now e c s)) =
     sliceLast MAX_HISTORY_LENGTH (past (history s) @ [present (history s)])"
  "future (history (mouseDownOnElement now e c s)) = []"
  "action (mouseDownOnElement now e c s) = Moving"
  "startPoint (mouseDownOnElement now e c s) \<noteq> None"
  by (simp_all add: mouseDownOnElement_def Let_def past_updateHistory)

text \<open>
  C2 (amended).  When no handle of the selected element is hit, a pointer-down resolves
  the hit to the first element of the scene, in insertion order, that contains the
  point: the earliest added one, which is drawn below the others.  If \<open>i\<close> is the least
  index of an element containing the point, the gesture becomes a move; a plain click
  makes element \<open>i\<close> the primary selected element and selects exactly the elements
  with its id; a Shift-click toggles the selection of the elements with its id; an
  Alt-click appends a selected copy of element \<open>i\<close> with the new id and makes it the
  primary selected element.
\<close>

theorem mouse_down_hits_first_element:
  assumes nohandle:
      "(case selectedElement s of None \<Rightarrow> None
        | Some sel \<Rightarrow> getHandleAtPosition (m_x e) (m_y e) sel) = None"
    and i: "i < length (present (history s))"
    and hit: "isPointInElement (m_x e) (m_y e) (present (history s) ! i)"
    and first: "\<forall>j<i. \<not> isPointInElement (m_x e) (m_y e) (present (history s) ! j)"
  shows "action (handleMouseDown now e s) = Moving \<and>
     (\<not> altKey e \<and> \<not> shiftKey e \<longrightarrow>
        selectedElement (handleMouseDown now e s) = Some (present (history s) ! i) \<and>
        present (history (handleMouseDown now e s)) =
          map (\<lambda>el. el\<lparr>e_selected := Some (e_id el = e_id (present (history s) ! i))\<rparr>)
            (present (history s))) \<and>
     (\<not> altKey e \<and> shiftKey e \<longrightarrow>
        present (history (handleMouseDown now e s)) =
          map (\<lambda>el. if e_id el = e_id (present (history s) ! i)
                     then el\<lparr>e_selected := Some (\<not> truthy (e_selected el))\<rparr> else el)
            (present (history s))) \<and>
     (altKey e \<longrightarrow>
        selectedElement (handleMouseDown now e s) =
          Some ((present (history s) ! i)\<lparr>e_id := now, e_selected := Some True\<rparr>) \<and>
        last (present (history (handleMouseDown now e s))) =
          (present (history s) ! i)\<lparr>e_id := now, e_selected := Some True\<rparr>)"
proof -
  let ?c = "present (history s) ! i"
  have f: "find (isPointInElement (m_x e) (m_y e)) (present (history s)) = Some ?c"
    by (rule find_first_index [OF i hit first])
  note h = handleMouseDown_hit [OF nohandle f]
  have a: "action (handleMouseDown now e s) = Moving"
    unfolding h by (simp add: mouseDownOnElement_def Let_def)
  have p: "\<not> altKey e \<and> \<not> shiftKey e \<longrightarrow>
        selectedElement (handleMouseDown now e s) = Some ?c \<and>
        present (history (handleMouseDown now e s)) =
          map (\<lambda>el. el\<lparr>e_selected := Some (e_id el = e_id ?c)\<rparr>) (present (history s))"
    unfolding h by (simp add: mouseDownOnElement_plain)
  have sh: "\<not> altKey e \<and> shiftKey e \<longrightarrow>
        present (history (handleMouseDown now e s)) =
          map (\<lambda>el. if e_id el = e_id ?c
                     then el\<lparr>e_selected := Some (\<not> truthy (e_selected el))\<rparr> else el)
            (present (history s))"
    unfolding h by (simp add: mouseDownOnElement_shift)
  have al: "altKey e \<longrightarrow>
        selectedElement (handleMouseDown now e s) =
          Some (?c\<lparr>e_id := now, e_selected := Some True\<rparr>) \<and>
        last (present (history (handleMouseDown now e s))) =
          ?c\<lparr>e_id := now, e_selected := Some True\<rparr>"
    unfolding h by (simp add: mouseDownOnElement_alt)
  from a p sh al show ?thesis by blast
qed

text \<open>
  A click at \<open>(25, 75)\<close> selects the rectangle drawn first, not the one drawn last.
\<close>

theorem topmost_hit_counterexample:
  "present (history twoRectanglesApp) = [bottomRectangle, topRectangle] \<and>
   selectedElement twoRectanglesApp = None \<and>
   isPointInElement 25 75 bottomRectangle \<and>
   isPointInElement 25 75 topRectangle \<and>
   selectedElement (handleMouseDown ''3000'' (pointerAt 25 75) twoRectanglesApp)
     = Some bottomRectangle \<and>
   present (history (handleMouseDown ''3000'' (pointerAt 25 75) twoRectanglesApp))
     = [bottomRectangle\<lparr>e_selected := Some True\<rparr>, topRectangle\<lparr>e_selected := Some False\<rparr>]"
  unfolding twoRectanglesApp_eval
  by (simp add: eval_defs bottomRectangle_def topRectangle_def)

text \<open>
  On the same scene the point \<open>(- 25, 75)\<close> lies inside the second rectangle only: a
  click there selects it.
\<close>

theorem mouse_down_hits_first_witness:
  "action (handleMouseDown ''3000'' (pointerAt (- 25) 75) twoRectanglesApp) = Moving \<and>
   selectedElement (handleMouseDown ''3000'' (pointerAt (- 25) 75) twoRectanglesApp)
     = Some topRectangle"
proof -
  have nohandle:
      "(case selectedElement twoRectanglesApp of None \<Rightarrow> None
        | Some sel \<Rightarrow>
            getHandleAtPosition (m_x (pointerAt (- 25) 75)) (m_y (pointerAt (- 25) 75)) sel) = None"
    by (simp add: twoRectanglesApp_eval rectangleToolApp_def initialApp_def)
  have i: "1 < length (present (history twoRectanglesApp))"
    by (simp add: twoRectanglesApp_eval)
  have hit: "isPointInElement (m_x (pointerAt (- 25) 75)) (m_y (pointerAt (- 25) 75))
               (present (history twoRectanglesApp) ! 1)"
    by (simp add: twoRectanglesApp_eval isPointInElement_def topRectangle_def pointerAt_def orZero_def)
  have first: "\<forall>j<1. \<not> isPointInElement (m_x (pointerAt (- 25) 75)) (m_y (pointerAt (- 25) 75))
               (present (history twoRectanglesApp) ! j)"
    by (simp add: twoRectanglesApp_eval isPointInElement_def bottomRectangle_def pointerAt_def)
  have k: "\<not> altKey (pointerAt (- 25) 75) \<and> \<not> shiftKey (pointerAt (- 25) 75)"
    by (simp add: pointerAt_def)
  have z: "present (history twoRectanglesApp) ! 1 = topRectangle"
    by (simp add: twoRectanglesApp_eval)
  show ?thesis
    using mouse_down_hits_first_element [OF nohandle i hit first, of "''3000''"] k z
    by simp
qed

section \<open>The history entries of a move gesture\<close>

lemma mouseMoveMoving_keeps:
  "past (history (mouseMoveMoving e sp s)) = past (history s)"
  "future (history (mouseMoveMoving e sp s)) = future (history s)"
  "action (mouseMoveMoving e sp s) = action s"
  "startPoint (mouseMoveMoving e sp s) = Some \<lparr>p_x = m_x e, p_y = m_y e\<rparr>"
  by (simp_all add: mouseMoveMoving_def setPresent_def Let_def split: option.splits)

lemma handleMouseMove_moving:
  "action s = Moving \<Longrightarrow> startPoint s = Some sp \<Longrightarrow> handleMouseMove e s = mouseMoveMoving e sp s"
  by (simp add: handleMouseMove_def)

lemma moves_keep_past:
  assumes "action s = Moving" and "startPoint s \<noteq> None"
  shows "past (history (run s (map MouseMove ms))) = past (history s) \<and>
         action (run s (map MouseMove ms)) = Moving \<and>
         startPoint (run s (map MouseMove ms)) \<noteq> None"
  using assms
proof (induction ms arbitrary: s)
  case Nil
  then show ?case by (simp add: run_Nil)
next
  case (Cons m ms)
  from Cons.prems obtain sp where sp: "startPoint s = Some sp" by auto
  have st: "step s (MouseMove m) = mouseMoveMoving m sp s"
    using Cons.prems(1) sp by (simp add: handleMouseMove_moving)
  have "action (step s (MouseMove m)) = Moving" "startPoint (step s (MouseMove m)) \<noteq> None"
    unfolding st using Cons.prems(1) by (simp_all add: mouseMoveMoving_keeps)
  from Cons.IH [OF this]
  have "past (history (run (step s (MouseMove m)) (map MouseMove ms))) =
          past (history (step s (MouseMove m)))"
    and "action (run (step s (MouseMove m)) (map MouseMove ms)) = Moving"
    and "startPoint (run (step s (MouseMove m)) (map MouseMove ms)) \<noteq> None"
    by blast+
  moreover have "past (history (step s (MouseMove m))) = past (history s)"
    unfolding st by (simp add: mouseMoveMoving_keeps)
  ultimately show ?case
    by (simp only: list.map run_Cons) simp
qed

lemma handleMouseUp_moving:
  "action s = Moving \<Longrightarrow>
   history (handleMouseUp s) =
     \<lparr> past = sliceLast MAX_HISTORY_LENGTH (past (history s) @ [present (history s)]),
       present = present (history s), future = [] \<rparr>"
  by (simp add: handleMouseUp_def Let_def)

lemma drag_gesture_history:
  assumes nohandle:
      "(case selectedElement s of None \<Rightarrow> None
        | Some sel \<Rightarrow> getHandleAtPosition (m_x e) (m_y e) sel) = None"
    and hit: "find (isPointInElement (m_x e) (m_y e)) (present (history s)) = Some c"
  shows "past (history (run s (MouseDown now e # map MouseMove ms @ [MouseUp]))) =
           sliceLast MAX_HISTORY_LENGTH
             (past (history s) @
              [present (history s),
               present (history (run s (MouseDown now e # map MouseMove ms)))])"
proof -
  let ?s1 = "handleMouseDown now e s"
  let ?s2 = "run ?s1 (map MouseMove ms)"
  have h: "?s1 = mouseDownOnElement now e c (s\<lparr>multiSelectMode := shiftKey e\<rparr>)"
    by (rule handleMouseDown_hit [OF nohandle hit])
  have p1: "past (history ?s1) = sliceLast MAX_HISTORY_LENGTH (past (history s) @ [present (history s)])"
    unfolding h by (simp add: mouseDownOnElement_commits)
  have a1: "action ?s1 = Moving" "startPoint ?s1 \<noteq> None"
    unfolding h by (simp_all add: mouseDownOnElement_commits)
  from moves_keep_past [OF a1]
  have p2: "past (history ?s2) = past (history ?s1)" and a2: "action ?s2 = Moving"
    by blast+
  have "past (history (handleMouseUp ?s2)) =
        sliceLast MAX_HISTORY_LENGTH (past (history ?s2) @ [present (history ?s2)])"
    by (simp add: handleMouseUp_moving [OF a2])
  also have "\<dots> = sliceLast MAX_HISTORY_LENGTH
        ((past (history s) @ [present (history s)]) @ [present (history ?s2)])"
    unfolding p2 p1 by (rule sliceLast_sliceLast_snoc [OF MAX_HISTORY_LENGTH_pos])
  finally show ?thesis
    by (simp add: run_Cons run_snoc run_append run_Nil)
qed

text \<open>
  C3 (amended).  A move gesture (a pointer-down that hits an element and no handle, any
  number of pointer-moves, one pointer-up) adds two entries to \<open>past\<close>, whatever the
  number of pointer-moves: the pointer-down commits the change of selection and pushes
  the scene from before the gesture, the pointer-moves push nothing, and the pointer-up
  pushes the moved scene, which stays the present scene.  \<open>past\<close> keeps its last 50
  entries, so its length grows by two when there is room for two.
\<close>

theorem drag_gesture_commits_twice:
  assumes nohandle:
      "(case selectedElement s of None \<Rightarrow> None
        | Some sel \<Rightarrow> getHandleAtPosition (m_x e) (m_y e) sel) = None"
    and hit: "list_ex (isPointInElement (m_x e) (m_y e)) (present (history s))"
  shows "past (history (run s (MouseDown now e # map MouseMove ms @ [MouseUp]))) =
           sliceLast MAX_HISTORY_LENGTH
             (past (history s) @
              [present (history s),
               present (history (run s (MouseDown now e # map MouseMove ms)))]) \<and>
         present (history (run s (MouseDown now e # map MouseMove ms @ [MouseUp]))) =
           present (history (run s (MouseDown now e # map MouseMove ms))) \<and>
         (length (past (history s)) + 2 \<le> MAX_HISTORY_LENGTH \<longrightarrow>
            length (past (history (run s (MouseDown now e # map MouseMove ms @ [MouseUp])))) =
              length (past (history s)) + 2)"
proof -
  from hit obtain c where
    c: "find (isPointInElement (m_x e) (m_y e)) (present (history s)) = Some c"
    by (cases "find (isPointInElement (m_x e) (m_y e)) (present (history s))")
       (auto simp add: find_None_iff list_ex_iff)
  note g = drag_gesture_history [OF nohandle c, of now ms]
  have a1: "action (handleMouseDown now e s) = Moving" "startPoint (handleMouseDown now e s) \<noteq> None"
    unfolding handleMouseDown_hit [OF nohandle c] by (simp_all add: mouseDownOnElement_commits)
  have a2: "action (run (handleMouseDown now e s) (map MouseMove ms)) = Moving"
    using moves_keep_past [OF a1] by blast
  have p: "present (history (run s (MouseDown now e # map MouseMove ms @ [MouseUp]))) =
           present (history (run s (MouseDown now e # map MouseMove ms)))"
    using handleMouseUp_moving [OF a2] by (simp add: run_Cons run_append run_Nil)
  have l: "length (past (history s)) + 2 \<le> MAX_HISTORY_LENGTH \<longrightarrow>
            length (past (history (run s (MouseDown now e # map MouseMove ms @ [MouseUp])))) =
              length (past (history s)) + 2"
    unfolding g by (simp add: length_sliceLast)
  from g p l show ?thesis by blast
qed

text \<open>
  On the scene of the two rectangles, whose \<open>past\<close> has 4 entries, a move gesture with
  20 pointer-moves leaves 6 entries, not 5.
\<close>

lemma twentyMoves_moves:
  "twentyMoves = map MouseMove (map (\<lambda>k. pointerAt (25 + real k) (75 + real k)) [1..<21])"
  by (simp add: twentyMoves_def)

theorem drag_gesture_counterexample:
  "length twentyMoves = 20 \<and>
   length (past (history twoRectanglesApp)) = 4 \<and>
   length (past (history
     (run twoRectanglesApp (MouseDown ''3000'' (pointerAt 25 75) # twentyMoves @ [MouseUp])))) = 6"
proof -
  have 1: "length twentyMoves = 20" by (simp add: twentyMoves_def)
  have 2: "length (past (history twoRectanglesApp)) = 4"
    by (simp add: twoRectanglesApp_eval)
  have 3: "length (past (history
     (run twoRectanglesApp (MouseDown ''3000'' (pointerAt 25 75) # twentyMoves @ [MouseUp])))) = 6"
    unfolding twentyMoves_moves
      drag_gesture_history [OF click_on_twoRectangles, of "''3000''"]
    by (simp add: length_sliceLast 2 MAX_HISTORY_LENGTH_def)
  from 1 2 3 show ?thesis by blast
qed

text \<open>A move gesture with one pointer-move, on the same scene.\<close>

theorem drag_gesture_witness:
  "length (past (history
     (run twoRectanglesApp
        [MouseDown ''3000'' (pointerAt 25 75), MouseMove (pointerAt 35 85), MouseUp]))) =
   length (past (history twoRectanglesApp)) + 2"
proof -
  have hit: "list_ex (isPointInElement (m_x (pointerAt 25 75)) (m_y (pointerAt 25 75)))
               (present (history twoRectanglesApp))"
    by (simp add: twoRectanglesApp_eval isPointInElement_def bottomRectangle_def pointerAt_def orZero_def)
  have len: "length (past (history twoRectanglesApp)) + 2 \<le> MAX_HISTORY_LENGTH"
    by (simp add: twoRectanglesApp_eval MAX_HISTORY_LENGTH_def)
  note T = drag_gesture_commits_twice [OF click_on_twoRectangles(1) hit,
      of "''3000''" "[pointerAt 35 85]"]
  from T [THEN conjunct2, THEN conjunct2] len
  have "length (past (history
     (run twoRectanglesApp
        (MouseDown ''3000'' (pointerAt 25 75) # map MouseMove [pointerAt 35 85] @ [MouseUp])))) =
     length (past (history twoRectanglesApp)) + 2"
    by (rule mp)
  then show ?thesis by simp
qed

section \<open>What each handler does to the ids and kinds of the scenes\<close>

lemma keys_Nil [simp]: "keys [] = []"
  by (simp add: keys_def)

lemma keys_append [simp]: "keys (xs @ ys) = keys xs @ keys ys"
  by (simp add: keys_def)

lemma keys_map:
  assumes "\<And>x. e_id (f x) = e_id x" and "\<And>x. e_type (f x) = e_type x"
  shows "keys (map f xs) = keys xs"
  using assms by (simp add: keys_def)

lemma keys_mapIndexed:
  assumes "\<And>i x. e_id (f i x) = e_id x" and "\<And>i x. e_type (f i x) = e_type x"
  shows "keys (mapIndexed f xs) = keys xs"
  unfolding keys_def by (rule nth_equalityI) (simp_all add: assms)

lemma keys_mapIndexed_if:
  assumes "\<And>x. e_id (g x) = e_id x" and "\<And>x. e_type (g x) = e_type x"
  shows "keys (mapIndexed (\<lambda>index el. if index = n then g el else el) xs) = keys xs"
  by (rule keys_mapIndexed) (simp_all add: assms)

lemma keys_deselect:
  "keys (map (\<lambda>el. el\<lparr>e_selected := v el\<rparr>) xs) = keys xs"
  by (simp add: keys_map)

lemma ids_keys: "map e_id xs = map fst (keys xs)"
  by (simp add: keys_def)


lemma uniqueIds_keys: "keys xs = keys ys \<Longrightarrow> uniqueIds xs = uniqueIds ys"
  by (simp add: uniqueIds_def ids_keys)



lemma rotateElement_key [simp]:
  "e_id (rotateElement e el) = e_id el" "e_type (rotateElement e el) = e_type el"
  by (simp_all add: rotateElement_def Let_def)

lemma resizeElement_key [simp]:
  "e_id (resizeElement e h el) = e_id el" "e_type (resizeElement e h el) = e_type el"
  by (simp_all add: resizeElement_def Let_def)

lemma setProperty_key [simp]:
  "e_id (setProperty p el) = e_id el" "e_type (setProperty p el) = e_type el"
  by (cases p; simp)+

lemma newElement_key:
  "e_id (newElement now x y s) = now"
  "e_type (newElement now x y s) \<noteq> Freehand"
  "tool s \<noteq> Selection \<Longrightarrow> e_type (newElement now x y s) \<noteq> Selection"
  by (simp_all add: newElement_def)

lemma mouseMoveDrawing_shape:
  "past (history (mouseMoveDrawing e s)) = past (history s) \<and>
   future (history (mouseMoveDrawing e s)) = future (history s) \<and>
   clipboard (mouseMoveDrawing e s) = clipboard s \<and>
   keys (present (history (mouseMoveDrawing e s))) = keys (present (history s))"
  by (simp add: mouseMoveDrawing_def Let_def keys_mapIndexed_if)

lemma mouseMoveSelecting_shape:
  "history (mouseMoveSelecting e s) = history s \<and> clipboard (mouseMoveSelecting e s) = clipboard s"
  by (simp add: mouseMoveSelecting_def split: option.splits)

lemma mouseMoveMoving_shape:
  "past (history (mouseMoveMoving e sp s)) = past (history s) \<and>
   future (history (mouseMoveMoving e sp s)) = future (history s) \<and>
   clipboard (mouseMoveMoving e sp s) = clipboard s \<and>
   keys (present (history (mouseMoveMoving e sp s))) = keys (present (history s))"
  by (simp add: mouseMoveMoving_def Let_def keys_map split: option.splits)

lemma mouseMoveResizing_shape:
  "past (history (mouseMoveResizing e sel h s)) = past (history s) \<and>
   future (history (mouseMoveResizing e sel h s)) = future (history s) \<and>
   clipboard (mouseMoveResizing e sel h s) = clipboard s \<and>
   keys (present (history (mouseMoveResizing e sel h s))) = keys (present (history s))"
  by (simp add: mouseMoveResizing_def Let_def keys_map split: option.splits)

lemma handleMouseMove_shape:
  "past (history (handleMouseMove e s)) = past (history s) \<and>
   future (history (handleMouseMove e s)) = future (history s) \<and>
   clipboard (handleMouseMove e s) = clipboard s \<and>
   keys (present (history (handleMouseMove e s))) = keys (present (history s))"
  by (simp add: handleMouseMove_def mouseMoveDrawing_shape mouseMoveSelecting_shape
        mouseMoveMoving_shape mouseMoveResizing_shape split: option.splits)

lemma handleMouseUp_shape:
  "set (past (history (handleMouseUp s))) \<subseteq> insert (present (history s)) (set (past (history s))) \<and>
   set (future (history (handleMouseUp s))) \<subseteq> set (future (history s)) \<and>
   clipboard (handleMouseUp s) = clipboard s \<and>
   keys (present (history (handleMouseUp s))) = keys (present (history s))"
  using set_sliceLast [of MAX_HISTORY_LENGTH "past (history s) @ [present (history s)]"]
    past_updateHistory_subset [of _ "history s"]
  by (auto simp add: handleMouseUp_def Let_def keys_map split: option.splits)

lemma mouseDownOnElement_shape:
  "set (past (history (mouseDownOnElement now e c s)))
     \<subseteq> insert (present (history s)) (set (past (history s))) \<and>
   future (history (mouseDownOnElement now e c s)) = [] \<and>
   clipboard (mouseDownOnElement now e c s) = clipboard s \<and>
   keys (present (history (mouseDownOnElement now e c s))) =
     (if altKey e then keys (present (history s)) @ [(now, e_type c)]
      else keys (present (history s)))"
  using past_updateHistory_subset [of _ "history s"]
  by (simp add: mouseDownOnElement_def Let_def keys_map) (simp add: keys_def)

lemma mouseDownOnEmpty_shape:
  "set (past (history (mouseDownOnEmpty now e s)))
     \<subseteq> insert (present (history s)) (set (past (history s)))
        \<union> {S. keys S = keys (present (history s))} \<and>
   set (future (history (mouseDownOnEmpty now e s))) \<subseteq> set (future (history s)) \<and>
   clipboard (mouseDownOnEmpty now e s) = clipboard s \<and>
   (keys (present (history (mouseDownOnEmpty now e s))) = keys (present (history s)) \<or>
    keys (present (history (mouseDownOnEmpty now e s))) =
      keys (present (history s)) @ [(now, e_type (newElement now (m_x e) (m_y e) s))])"
proof -
  define d where "d = map (\<lambda>el. el\<lparr>e_selected := Some False\<rparr>) (present (history s))"
  define T where "T = insert (present (history s)) (set (past (history s)))
                        \<union> {S. keys S = keys (present (history s))}"
  define n where "n = newElement now (m_x e) (m_y e) s"
  have kd: "keys d = keys (present (history s))"
    unfolding d_def by (rule keys_deselect)
  have p0: "set (past (history s)) \<subseteq> T"
    unfolding T_def by auto
  have p1: "set (past (updateHistory S (history s))) \<subseteq> T" for S
    using past_updateHistory_subset [of S "history s"] unfolding T_def by auto
  have p2: "set (past (updateHistory S (updateHistory d (history s)))) \<subseteq> T" for S
    using past_updateHistory_subset [of S "updateHistory d (history s)"]
      past_updateHistory_subset [of d "history s"] kd
    unfolding T_def by auto
  have kn: "keys [n] = [(now, e_type n)]"
    by (simp add: keys_def n_def newElement_key)
  have "set (past (history (mouseDownOnEmpty now e s))) \<subseteq> T \<and>
   set (future (history (mouseDownOnEmpty now e s))) \<subseteq> set (future (history s)) \<and>
   clipboard (mouseDownOnEmpty now e s) = clipboard s \<and>
   (keys (present (history (mouseDownOnEmpty now e s))) = keys (present (history s)) \<or>
    keys (present (history (mouseDownOnEmpty now e s))) =
      keys (present (history s)) @ [(now, e_type n)])"
    unfolding mouseDownOnEmpty_def Let_def d_def [symmetric] n_def [symmetric]
    by (simp add: p0 p1 p2 kd kn)
  then show ?thesis
    unfolding T_def n_def .
qed

lemma handleMouseDown_shape:
  "set (past (history (handleMouseDown now e s)))
     \<subseteq> insert (present (history s)) (set (past (history s)))
        \<union> {S. keys S = keys (present (history s))} \<and>
   set (future (history (handleMouseDown now e s))) \<subseteq> set (future (history s)) \<and>
   clipboard (handleMouseDown now e s) = clipboard s \<and>
   (keys (present (history (handleMouseDown now e s))) = keys (present (history s)) \<or>
    (\<exists>t. keys (present (history (handleMouseDown now e s))) =
            keys (present (history s)) @ [(now, t)] \<and>
         (t = Freehand \<longrightarrow> \<not> noFreehand (present (history s)))))"
proof -
  let ?s = "s\<lparr>multiSelectMode := shiftKey e\<rparr>"
  have hs: "history ?s = history s" "clipboard ?s = clipboard s" by simp_all
  show ?thesis
  proof (cases "case selectedElement s of None \<Rightarrow> None
                | Some sel \<Rightarrow> getHandleAtPosition (m_x e) (m_y e) sel")
    case (Some h)
    show ?thesis
      unfolding handleMouseDown_resize [OF Some] by auto
  next
    case None
    show ?thesis
    proof (cases "find (isPointInElement (m_x e) (m_y e)) (present (history s))")
      case (Some c)
      then have "c \<in> set (present (history s))"
        by (auto simp add: find_Some_iff)
      then have t: "e_type c = Freehand \<longrightarrow> \<not> noFreehand (present (history s))"
        by (auto simp add: noFreehand_def list_all_iff)
      show ?thesis
        unfolding handleMouseDown_hit [OF None Some]
        using mouseDownOnElement_shape [of now e c ?s] t
        by (auto simp add: hs)
    next
      case empty: None
      show ?thesis
        unfolding handleMouseDown_empty [OF None empty]
        using mouseDownOnEmpty_shape [of now e ?s] newElement_key(2) [of now "m_x e" "m_y e" ?s]
        by (auto simp add: hs)
    qed
  qed
qed

lemma keyEscape_shape:
  "set (past (history (keyEscape s))) \<subseteq> insert (present (history s)) (set (past (history s))) \<and>
   set (future (history (keyEscape s))) \<subseteq> set (future (history s)) \<and>
   clipboard (keyEscape s) = clipboard s \<and>
   keys (present (history (keyEscape s))) = keys (present (history s))"
  using past_updateHistory_subset [of _ "history s"]
  by (auto simp add: keyEscape_def Let_def keys_map)

lemma keySelectAll_shape:
  "set (past (history (keySelectAll s))) \<subseteq> insert (present (history s)) (set (past (history s))) \<and>
   set (future (history (keySelectAll s))) \<subseteq> set (future (history s)) \<and>
   clipboard (keySelectAll s) = clipboard s \<and>
   keys (present (history (keySelectAll s))) = keys (present (history s))"
  using past_updateHistory_subset [of _ "history s"]
  by (auto simp add: keySelectAll_def Let_def keys_map)

lemma types_mapIndexed_id:
  "map e_type (mapIndexed (\<lambda>i el. el\<lparr>e_id := f i\<rparr>) xs) = map e_type xs"
  by (rule nth_equalityI) simp_all

lemma copied_types:
  "e_type ` set (mapIndexed (\<lambda>i el. el\<lparr>e_id := f i\<rparr>) (filter P xs)) \<subseteq> e_type ` set xs"
proof -
  have "e_type ` set (mapIndexed (\<lambda>i el. el\<lparr>e_id := f i\<rparr>) (filter P xs)) =
        set (map e_type (mapIndexed (\<lambda>i el. el\<lparr>e_id := f i\<rparr>) (filter P xs)))"
    by simp
  also have "\<dots> = e_type ` set (filter P xs)"
    unfolding types_mapIndexed_id by simp
  finally show ?thesis by auto
qed

lemma keyCopy_shape:
  "history (keyCopy newId s) = history s \<and>
   set (map e_type (clipboard (keyCopy newId s)))
     \<subseteq> set (map e_type (present (history s))) \<union> set (map e_type (clipboard s))"
  using copied_types [of newId "\<lambda>el. truthy (e_selected el)" "present (history s)"]
  by (auto simp add: keyCopy_def Let_def)

lemma keyCut_shape:
  "set (past (history (keyCut newId s))) \<subseteq> insert (present (history s)) (set (past (history s))) \<and>
   set (future (history (keyCut newId s))) \<subseteq> set (future (history s)) \<and>
   (present (history (keyCut newId s)) = present (history s) \<or>
    present (history (keyCut newId s)) =
      filter (\<lambda>el. \<not> truthy (e_selected el)) (present (history s))) \<and>
   set (map e_type (clipboard (keyCut newId s)))
     \<subseteq> set (map e_type (present (history s))) \<union> set (map e_type (clipboard s))"
  using past_updateHistory_subset [of _ "history s"]
    copied_types [of newId "\<lambda>el. truthy (e_selected el)" "present (history s)"]
  by (auto simp add: keyCut_def Let_def)

lemma keys_offsetCopies:
  "keys (mapIndexed (\<lambda>i el. offsetCopy (newId i) el) xs) =
     zip (map newId [0..<length xs]) (map e_type xs)"
  unfolding keys_def by (rule nth_equalityI) (simp_all add: offsetCopy_fields)

lemma keyPaste_shape:
  "set (past (history (keyPaste newId s))) \<subseteq> insert (present (history s)) (set (past (history s))) \<and>
   set (future (history (keyPaste newId s))) \<subseteq> set (future (history s)) \<and>
   clipboard (keyPaste newId s) = clipboard s \<and>
   (keys (present (history (keyPaste newId s))) = keys (present (history s)) \<or>
    keys (present (history (keyPaste newId s))) =
      keys (present (history s))
      @ zip (map newId [0..<length (clipboard s)]) (map e_type (clipboard s)))"
  using past_updateHistory_subset [of _ "history s"]
  by (auto simp add: keyPaste_def Let_def keys_offsetCopies keys_deselect)

lemma keyDuplicate_shape:
  "set (past (history (keyDuplicate newId s)))
     \<subseteq> insert (present (history s)) (set (past (history s))) \<and>
   set (future (history (keyDuplicate newId s))) \<subseteq> set (future (history s)) \<and>
   clipboard (keyDuplicate newId s) = clipboard s \<and>
   (keys (present (history (keyDuplicate newId s))) = keys (present (history s)) \<or>
    keys (present (history (keyDuplicate newId s))) =
      keys (present (history s))
      @ zip (map newId [0..<length (filter (\<lambda>el. truthy (e_selected el)) (present (history s)))])
          (map e_type (filter (\<lambda>el. truthy (e_selected el)) (present (history s)))))"
  using past_updateHistory_subset [of _ "history s"]
  by (auto simp add: keyDuplicate_def Let_def keys_offsetCopies keys_deselect)

lemma keyDelete_shape:
  "set (past (history (keyDelete s))) \<subseteq> insert (present (history s)) (set (past (history s))) \<and>
   set (future (history (keyDelete s))) \<subseteq> set (future (history s)) \<and>
   clipboard (keyDelete s) = clipboard s \<and>
   (present (history (keyDelete s)) = present (history s) \<or>
    present (history (keyDelete s)) =
      filter (\<lambda>el. \<not> truthy (e_selected el)) (present (history s)))"
  using past_updateHistory_subset [of _ "history s"]
  by (auto simp add: keyDelete_def handleDeleteSelectedElements_def Let_def)

lemma updateElementProperty_shape:
  "set (past (history (updateElementProperty p s)))
     \<subseteq> insert (present (history s)) (set (past (history s))) \<and>
   set (future (history (updateElementProperty p s))) \<subseteq> set (future (history s)) \<and>
   clipboard (updateElementProperty p s) = clipboard s \<and>
   keys (present (history (updateElementProperty p s))) = keys (present (history s))"
  using past_updateHistory_subset [of _ "history s"]
  by (auto simp add: updateElementProperty_def Let_def keys_map)

lemma handleImport_shape:
  "set (past (history (handleImport doc s)))
     \<subseteq> insert (present (history s)) (set (past (history s))) \<and>
   future (history (handleImport doc s)) = [] \<and>
   clipboard (handleImport doc s) = clipboard s \<and>
   present (history (handleImport doc s)) = doc"
  using past_updateHistory_subset [of _ "history s"]
  by (auto simp add: handleImport_def)

lemma step_past_future:
  "set (past (history (step s ev)))
     \<subseteq> insert (present (history s)) (set (past (history s)))
        \<union> {S. keys S = keys (present (history s))} \<and>
   set (future (history (step s ev))) \<subseteq> insert (present (history s)) (set (future (history s)))"
proof (cases ev)
  case (MouseDown now e)
  then show ?thesis using handleMouseDown_shape [of now e s] by auto
next
  case (MouseMove e)
  then show ?thesis using handleMouseMove_shape [of e s] by auto
next
  case MouseUp
  then show ?thesis using handleMouseUp_shape [of s] by auto
next
  case Undo
  then show ?thesis using handleUndo_shape [of "history s"] by (auto simp add: keyUndo_def)
next
  case Redo
  then show ?thesis using handleRedo_shape [of "history s"] by (auto simp add: keyRedo_def)
next
  case Escape
  then show ?thesis using keyEscape_shape [of s] by auto
next
  case SelectAll
  then show ?thesis using keySelectAll_shape [of s] by auto
next
  case (Copy newId)
  then show ?thesis using keyCopy_shape [of newId s] by auto
next
  case (Cut newId)
  then show ?thesis using keyCut_shape [of newId s] by auto
next
  case (Paste newId)
  then show ?thesis using keyPaste_shape [of newId s] by auto
next
  case (Duplicate newId)
  then show ?thesis using keyDuplicate_shape [of newId s] by auto
next
  case Delete
  then show ?thesis using keyDelete_shape [of s] by auto
next
  case (SetTool t)
  then show ?thesis by auto
next
  case (EditProperty p)
  then show ?thesis using updateElementProperty_shape [of p s] by auto
next
  case (Import doc)
  then show ?thesis using handleImport_shape [of doc s] by auto
qed

lemma snapshots_preserved:
  assumes inv: "list_all Q (snapshots h)"
    and Qk: "\<And>xs ys. keys xs = keys ys \<Longrightarrow> Q xs \<Longrightarrow> Q ys"
    and pst: "set (past h') \<subseteq> insert (present h) (set (past h)) \<union> {S. keys S = keys (present h)}"
    and fut: "set (future h') \<subseteq> insert (present h) (set (future h))"
    and pr: "Q (present h')"
  shows "list_all Q (snapshots h')"
proof -
  from inv have a: "Q (present h)" "\<forall>S\<in>set (past h). Q S" "\<forall>S\<in>set (future h). Q S"
    by (simp_all add: snapshots_def list_all_iff)
  have "\<forall>S\<in>set (past h'). Q S"
  proof
    fix S assume "S \<in> set (past h')"
    with pst have "S = present h \<or> S \<in> set (past h) \<or> keys S = keys (present h)" by auto
    then show "Q S" using a Qk [of "present h" S] by auto
  qed
  moreover have "\<forall>S\<in>set (future h'). Q S"
    using fut a by auto
  ultimately show ?thesis
    using pr by (auto simp add: snapshots_def list_all_iff)
qed

section \<open>Uniqueness of ids\<close>

lemma uniqueIds_append_fresh:
  assumes "uniqueIds xs" and "keys ys = keys xs @ zip ids ts" and "length ids = length ts"
    and "distinct ids" and "list_all (\<lambda>i. i \<notin> set (map e_id xs)) ids"
  shows "uniqueIds ys"
proof -
  have "map e_id ys = map e_id xs @ ids"
    unfolding ids_keys assms(2) using assms(3) by simp
  then show ?thesis
    using assms(1,4,5) by (auto simp add: uniqueIds_def list_all_iff)
qed

lemma uniqueIds_filter: "uniqueIds xs \<Longrightarrow> uniqueIds (filter P xs)"
  by (simp add: uniqueIds_def distinct_map_filter)

lemma step_present_unique:
  assumes inv: "list_all uniqueIds (snapshots (history s))" and fresh: "idsFresh s ev"
  shows "uniqueIds (present (history (step s ev)))"
proof -
  from inv have u: "uniqueIds (present (history s))"
    and up: "\<forall>S\<in>set (past (history s)). uniqueIds S"
    and uf: "\<forall>S\<in>set (future (history s)). uniqueIds S"
    by (simp_all add: snapshots_def list_all_iff)
  note same = uniqueIds_keys [THEN iffD2, OF _ u]
  show ?thesis
  proof (cases ev)
    case (MouseDown now e)
    with fresh have f: "list_all (\<lambda>i. i \<notin> set (map e_id (present (history s)))) [now]" by simp
    from handleMouseDown_shape [of now e s]
    consider "keys (present (history (handleMouseDown now e s))) = keys (present (history s))"
      | t where "keys (present (history (handleMouseDown now e s))) =
                   keys (present (history s)) @ zip [now] [t]"
      by auto
    then show ?thesis
    proof cases
      case 1
      then show ?thesis using MouseDown by (simp add: same)
    next
      case 2
      from uniqueIds_append_fresh [OF u 2 _ _ f] show ?thesis using MouseDown by simp
    qed
  next
    case (MouseMove e)
    then show ?thesis using handleMouseMove_shape [of e s] by (simp add: same)
  next
    case MouseUp
    then show ?thesis using handleMouseUp_shape [of s] by (simp add: same)
  next
    case Undo
    then show ?thesis using handleUndo_shape [of "history s"] u up by (auto simp add: keyUndo_def)
  next
    case Redo
    then show ?thesis using handleRedo_shape [of "history s"] u uf by (auto simp add: keyRedo_def)
  next
    case Escape
    then show ?thesis using keyEscape_shape [of s] by (simp add: same)
  next
    case SelectAll
    then show ?thesis using keySelectAll_shape [of s] by (simp add: same)
  next
    case (Copy newId)
    then show ?thesis using keyCopy_shape [of newId s] u by simp
  next
    case (Cut newId)
    then show ?thesis using keyCut_shape [of newId s] u uniqueIds_filter [OF u] by auto
  next
    case (Paste newId)
    with fresh have f: "distinct (map newId [0..<length (clipboard s)])"
      "list_all (\<lambda>i. i \<notin> set (map e_id (present (history s))))
         (map newId [0..<length (clipboard s)])"
      by (simp_all add: Let_def)
    from keyPaste_shape [of newId s]
    consider "keys (present (history (keyPaste newId s))) = keys (present (history s))"
      | "keys (present (history (keyPaste newId s))) =
           keys (present (history s))
           @ zip (map newId [0..<length (clipboard s)]) (map e_type (clipboard s))"
      by auto
    then show ?thesis
    proof cases
      case 1
      then show ?thesis using Paste by (simp add: same)
    next
      case 2
      from uniqueIds_append_fresh [OF u 2 _ f] show ?thesis using Paste by simp
    qed
  next
    case (Duplicate newId)
    let ?sel = "filter (\<lambda>el. truthy (e_selected el)) (present (history s))"
    from Duplicate fresh have f: "distinct (map newId [0..<length ?sel])"
      "list_all (\<lambda>i. i \<notin> set (map e_id (present (history s)))) (map newId [0..<length ?sel])"
      by (simp_all add: Let_def)
    from keyDuplicate_shape [of newId s]
    consider "keys (present (history (keyDuplicate newId s))) = keys (present (history s))"
      | "keys (present (history (keyDuplicate newId s))) =
           keys (present (history s)) @ zip (map newId [0..<length ?sel]) (map e_type ?sel)"
      by auto
    then show ?thesis
    proof cases
      case 1
      then show ?thesis using Duplicate by (simp add: same)
    next
      case 2
      from uniqueIds_append_fresh [OF u 2 _ f] show ?thesis using Duplicate by simp
    qed
  next
    case Delete
    then show ?thesis using keyDelete_shape [of s] u uniqueIds_filter [OF u] by auto
  next
    case (SetTool t)
    then show ?thesis using u by simp
  next
    case (EditProperty p)
    then show ?thesis using updateElementProperty_shape [of p s] by (simp add: same)
  next
    case (Import doc)
    then show ?thesis using handleImport_shape [of doc s] fresh by simp
  qed
qed

lemma step_unique:
  assumes inv: "list_all uniqueIds (snapshots (history s))" and fresh: "idsFresh s ev"
  shows "list_all uniqueIds (snapshots (history (step s ev)))"
proof (rule snapshots_preserved [OF inv])
  show "uniqueIds ys" if "keys xs = keys ys" "uniqueIds xs" for xs ys
    using that uniqueIds_keys by blast
  show "set (past (history (step s ev)))
     \<subseteq> insert (present (history s)) (set (past (history s)))
        \<union> {S. keys S = keys (present (history s))}"
    using step_past_future [of s ev] by blast
  show "set (future (history (step s ev))) \<subseteq> insert (present (history s)) (set (future (history s)))"
    using step_past_future [of s ev] by blast
  show "uniqueIds (present (history (step s ev)))"
    by (rule step_present_unique [OF inv fresh])
qed

text \<open>
  C4 (amended).  If no two elements share an id in any scene of the history, and every
  id that the events bring from the clock and the random number generator is new when
  it arrives (different from the ids of the present scene, and from the other ids of
  the same paste or duplicate), then after any sequence of draw gestures, Alt-drag
  duplicates, pastes, duplicates, cuts, deletes, undos and redos (and of the other
  events) no two elements of the present scene share an id, nor of any scene in
  \<open>past\<close> and \<open>future\<close>.  The handlers never compare a new id with the ids that exist.
\<close>

theorem ids_unique_when_minted_fresh:
  assumes "list_all uniqueIds (snapshots (history s))" and "allFresh s evs"
  shows "uniqueIds (present (history (run s evs))) \<and>
         list_all uniqueIds (snapshots (history (run s evs)))"
proof -
  have "list_all uniqueIds (snapshots (history (run s evs)))"
    using assms
  proof (induction evs arbitrary: s)
    case Nil
    then show ?case by (simp add: run_Nil)
  next
    case (Cons ev evs)
    from Cons.prems have "idsFresh s ev" "allFresh (step s ev) evs" by simp_all
    from Cons.IH [OF step_unique [OF Cons.prems(1) this(1)] this(2)]
    show ?case by (simp add: run_Cons)
  qed
  then show ?thesis by (simp add: snapshots_def)
qed

text \<open>
  Two rectangles drawn while the clock shows the same value \<open>1000\<close> have the same id.
\<close>

theorem ids_unique_counterexample:
  "map e_id (present (history (run rectangleToolApp
      [MouseDown ''1000'' (pointerAt 0 0), MouseMove (pointerAt 100 100), MouseUp,
       MouseDown ''1000'' (pointerAt 200 200), MouseMove (pointerAt 300 300), MouseUp])))
     = [''1000'', ''1000''] \<and>
   \<not> uniqueIds (present (history (run rectangleToolApp
      [MouseDown ''1000'' (pointerAt 0 0), MouseMove (pointerAt 100 100), MouseUp,
       MouseDown ''1000'' (pointerAt 200 200), MouseMove (pointerAt 300 300), MouseUp])))"
  unfolding run_def uniqueIds_def
  by (simp add: eval_defs)

lemma editingSession_fresh: "allFresh rectangleToolApp editingSession"
  unfolding editingSession_def
  by (simp add: eval_defs key_defs)

text \<open>A session in which every new id differs from the ids in the scene.\<close>

theorem ids_unique_witness:
  "list_all uniqueIds (snapshots (history rectangleToolApp)) \<and>
   allFresh rectangleToolApp editingSession \<and>
   uniqueIds (present (history (run rectangleToolApp editingSession)))"
proof -
  have i: "list_all uniqueIds (snapshots (history rectangleToolApp))"
    by (simp add: snapshots_def uniqueIds_def rectangleToolApp_def initialApp_def)
  from ids_unique_when_minted_fresh [OF i editingSession_fresh] i editingSession_fresh
  show ?thesis by blast
qed

section \<open>Freehand strokes\<close>

lemma noFreehand_append [simp]: "noFreehand (xs @ ys) = (noFreehand xs \<and> noFreehand ys)"
  by (simp add: noFreehand_def)














end
